theory Spec2Isabelle
  imports Complex_Main "HOL-Library.Monad_Syntax" "HOL-Library.Multiset"
begin

section \<open>Values crossing the action boundary\<close>

text \<open>
  The actions of \<^verbatim>\<open>src/actions/index.ts\<close> receive a JavaScript value as payload and a call
  context. A JavaScript number is a rational or one of the two infinities (the schemas
  below refuse NaN, and nothing in the handlers computes with a number); a \<^verbatim>\<open>Date\<close> is
  its time value in milliseconds (only valid dates: the schema refuses an Invalid Date).
\<close>

datatype number = Num rat | PlusInfinity | MinusInfinity

type_synonym date = int

definition finite_number :: "number \<Rightarrow> bool" where
  "finite_number x = (case x of Num q \<Rightarrow> True | PlusInfinity \<Rightarrow> False | MinusInfinity \<Rightarrow> False)"

definition is_positive :: "number \<Rightarrow> bool" where
  "is_positive x = (case x of Num q \<Rightarrow> 0 < q | PlusInfinity \<Rightarrow> True | MinusInfinity \<Rightarrow> False)"

definition is_nonnegative :: "number \<Rightarrow> bool" where
  "is_nonnegative x =
     (case x of Num q \<Rightarrow> 0 \<le> q | PlusInfinity \<Rightarrow> True | MinusInfinity \<Rightarrow> False)"

datatype jsval =
    JUndefined
  | JNull
  | JBool bool
  | JNum number
  | JStr string
  | JDate date
  | JArr "jsval list"
  | JObj "(string \<times> jsval) list"

text \<open>Reading a property of an object: a missing key reads as \<^verbatim>\<open>undefined\<close>.\<close>

definition field :: "(string \<times> jsval) list \<Rightarrow> string \<Rightarrow> jsval" where
  "field kvs k = (case map_of kvs k of None \<Rightarrow> JUndefined | Some v \<Rightarrow> v)"

text \<open>
  The call context: \<^verbatim>\<open>context.locals\<close> may be undefined, and so may \<^verbatim>\<open>locals.user\<close>;
  a user carries its \<^verbatim>\<open>id\<close>.
\<close>

record user =
  user_id :: string

record locals =
  locals_user :: "user option"

record ActionAPIContext =
  ctx_locals :: "locals option"

datatype error_code = UNAUTHORIZED | NOT_FOUND

text \<open>
  What an action throws: an \<^verbatim>\<open>ActionError\<close> with its code and message (raised by the
  handlers), the input error that \<^verbatim>\<open>defineAction\<close> raises when the payload does not
  pass the \<^verbatim>\<open>input\<close> schema, or the exception of a database statement that fails,
  which no handler catches and the caller receives as INTERNAL_SERVER_ERROR.
\<close>

datatype failure =
    ActionError error_code string
  | ActionInputError
  | InternalServerError

section \<open>The tables of \<^verbatim>\<open>db/tables.ts\<close>\<close>

text \<open>
  One record per row. A column declared \<^verbatim>\<open>optional: true\<close> holds \<open>None\<close> for SQL NULL.
  The field names carry a prefix (\<open>h_\<close>, \<open>l_\<close>) because both tables have columns
  \<^verbatim>\<open>id\<close> and \<^verbatim>\<open>userId\<close>.
\<close>

record EcoHabit =
  h_id :: string
  h_userId :: string
  h_name :: string
  h_description :: "string option"
  h_category :: "string option"
  h_frequency :: "string option"
  h_targetPerPeriod :: "number option"
  h_impactPerUnit :: "number option"
  h_impactUnit :: "string option"
  h_isActive :: bool
  h_createdAt :: date
  h_updatedAt :: date

record EcoHabitLog =
  l_id :: string
  l_habitId :: string
  l_userId :: string
  l_logDate :: date
  l_quantity :: "number option"
  l_notes :: "string option"
  l_createdAt :: date

text \<open>
  The database: the two tables, rows in insertion order, and a journal of the statements
  executed against it, so that "before any store access" can be said of a run.
\<close>

datatype table_name = Habits | HabitLogs

datatype db_access = Select table_name | Insert table_name | Update table_name

record db =
  EcoHabits :: "EcoHabit list"
  EcoHabitLogs :: "EcoHabitLog list"
  journal :: "db_access list"

subsection \<open>What the database client accepts and returns\<close>

text \<open>
  A number bound to a statement must be finite: the client refuses \<^verbatim>\<open>Infinity\<close> before
  the statement runs.
\<close>

definition bindable :: "number option \<Rightarrow> bool" where
  "bindable v = (case v of None \<Rightarrow> True | Some x \<Rightarrow> finite_number x)"

text \<open>
  The number columns are integer columns. A stored number without fractional part that
  fits a 64-bit integer is kept as an integer, and the client refuses to read an integer
  back that is not a safe integer of JavaScript: one of magnitude \<^verbatim>\<open>2^53\<close> or more.
\<close>

definition unsafe_integer :: "number \<Rightarrow> bool" where
  "unsafe_integer x =
     (case x of
        Num q \<Rightarrow> of_int \<lfloor>q\<rfloor> = q \<and> 9007199254740992 \<le> \<bar>q\<bar> \<and> \<bar>q\<bar> < 9223372036854775808
      | PlusInfinity \<Rightarrow> False
      | MinusInfinity \<Rightarrow> False)"

definition unsafe_column :: "number option \<Rightarrow> bool" where
  "unsafe_column v = (case v of None \<Rightarrow> False | Some x \<Rightarrow> unsafe_integer x)"

definition unreadable_EcoHabit :: "EcoHabit \<Rightarrow> bool" where
  "unreadable_EcoHabit r =
     (unsafe_column (h_targetPerPeriod r) \<or> unsafe_column (h_impactPerUnit r))"

definition unreadable_EcoHabitLog :: "EcoHabitLog \<Rightarrow> bool" where
  "unreadable_EcoHabitLog r = unsafe_column (l_quantity r)"

text \<open>A text is read back up to its first NUL character.\<close>

definition cut_text :: "string \<Rightarrow> string" where
  "cut_text t = takeWhile (\<lambda>c. c \<noteq> CHR 0x00) t"

definition read_EcoHabit :: "EcoHabit \<Rightarrow> EcoHabit" where
  "read_EcoHabit r =
     r\<lparr>h_id := cut_text (h_id r), h_userId := cut_text (h_userId r),
       h_name := cut_text (h_name r),
       h_description := map_option cut_text (h_description r),
       h_category := map_option cut_text (h_category r),
       h_frequency := map_option cut_text (h_frequency r),
       h_impactUnit := map_option cut_text (h_impactUnit r)\<rparr>"

definition read_EcoHabitLog :: "EcoHabitLog \<Rightarrow> EcoHabitLog" where
  "read_EcoHabitLog r =
     r\<lparr>l_id := cut_text (l_id r), l_habitId := cut_text (l_habitId r),
       l_userId := cut_text (l_userId r), l_notes := map_option cut_text (l_notes r)\<rparr>"

subsection \<open>Statements\<close>

text \<open>
  \<^verbatim>\<open>db.select().from(T).where(c)\<close> returns the rows of \<open>T\<close> that satisfy \<open>c\<close>, as the
  client reads them back; it throws when one of these rows holds an integer that the
  client refuses.
\<close>

definition select_EcoHabits ::
  "(EcoHabit \<Rightarrow> bool) \<Rightarrow> db \<Rightarrow> (failure + EcoHabit list) \<times> db" where
  "select_EcoHabits c s =
     (let rows = filter c (EcoHabits s); s' = s\<lparr>journal := journal s @ [Select Habits]\<rparr>
      in if list_ex unreadable_EcoHabit rows then (Inl InternalServerError, s')
         else (Inr (map read_EcoHabit rows), s'))"

definition select_EcoHabitLogs ::
  "(EcoHabitLog \<Rightarrow> bool) \<Rightarrow> db \<Rightarrow> (failure + EcoHabitLog list) \<times> db" where
  "select_EcoHabitLogs c s =
     (let rows = filter c (EcoHabitLogs s);
          s' = s\<lparr>journal := journal s @ [Select HabitLogs]\<rparr>
      in if list_ex unreadable_EcoHabitLog rows then (Inl InternalServerError, s')
         else (Inr (map read_EcoHabitLog rows), s'))"

text \<open>
  \<^verbatim>\<open>db.insert(T).values(r)\<close> appends the row. It throws, and the table stays as it was,
  when a number of the row is not finite, or when the \<^verbatim>\<open>id\<close> of the row, the primary key
  of both tables, is in the table already.
\<close>

definition insert_EcoHabits :: "EcoHabit \<Rightarrow> db \<Rightarrow> (failure + unit) \<times> db" where
  "insert_EcoHabits r s =
     (let s' = s\<lparr>journal := journal s @ [Insert Habits]\<rparr>
      in if \<not> (bindable (h_targetPerPeriod r) \<and> bindable (h_impactPerUnit r))
            \<or> h_id r \<in> set (map h_id (EcoHabits s))
         then (Inl InternalServerError, s')
         else (Inr (), s'\<lparr>EcoHabits := EcoHabits s @ [r]\<rparr>))"

definition insert_EcoHabitLogs :: "EcoHabitLog \<Rightarrow> db \<Rightarrow> (failure + unit) \<times> db" where
  "insert_EcoHabitLogs r s =
     (let s' = s\<lparr>journal := journal s @ [Insert HabitLogs]\<rparr>
      in if \<not> bindable (l_quantity r) \<or> l_id r \<in> set (map l_id (EcoHabitLogs s))
         then (Inl InternalServerError, s')
         else (Inr (), s'\<lparr>EcoHabitLogs := EcoHabitLogs s @ [r]\<rparr>))"

text \<open>
  \<^verbatim>\<open>db.update(T).set(u).where(c)\<close> changes every row that satisfies \<open>c\<close>. The object
  \<open>u\<close> maps column names to values. The query builder behind \<^verbatim>\<open>astro:db\<close> (drizzle)
  ignores the keys of \<open>u\<close> whose value is \<^verbatim>\<open>undefined\<close> when it builds the statement, so
  such a column keeps its stored value; only an explicit \<^verbatim>\<open>null\<close> would clear it, and the
  handlers never pass one. A \<open>set\<close> object is therefore a record of options, \<open>None\<close> for
  a key that is missing or undefined; it has the columns that the handlers ever name.
  (An insert is different: a column with no value in the inserted row is stored as NULL.)
  The statement throws, and the table stays as it was, when a number of \<open>u\<close> is not
  finite.
\<close>

record EcoHabit_set =
  set_name :: "string option"
  set_description :: "string option"
  set_category :: "string option"
  set_frequency :: "string option"
  set_targetPerPeriod :: "number option"
  set_impactPerUnit :: "number option"
  set_impactUnit :: "string option"
  set_isActive :: "bool option"
  set_updatedAt :: "date option"

record EcoHabitLog_set =
  set_habitId :: "string option"
  set_logDate :: "date option"
  set_quantity :: "number option"
  set_notes :: "string option"

text \<open>A required column takes the new value if there is one.\<close>

definition assign :: "'a option \<Rightarrow> 'a \<Rightarrow> 'a" where
  "assign new old = (case new of None \<Rightarrow> old | Some v \<Rightarrow> v)"

text \<open>So does a nullable column: the new value is never NULL.\<close>

definition assign_nullable :: "'a option \<Rightarrow> 'a option \<Rightarrow> 'a option" where
  "assign_nullable new old = (case new of None \<Rightarrow> old | Some v \<Rightarrow> Some v)"

definition apply_EcoHabit_set :: "EcoHabit_set \<Rightarrow> EcoHabit \<Rightarrow> EcoHabit" where
  "apply_EcoHabit_set u r =
     r\<lparr>h_name := assign (set_name u) (h_name r),
       h_description := assign_nullable (set_description u) (h_description r),
       h_category := assign_nullable (set_category u) (h_category r),
       h_frequency := assign_nullable (set_frequency u) (h_frequency r),
       h_targetPerPeriod := assign_nullable (set_targetPerPeriod u) (h_targetPerPeriod r),
       h_impactPerUnit := assign_nullable (set_impactPerUnit u) (h_impactPerUnit r),
       h_impactUnit := assign_nullable (set_impactUnit u) (h_impactUnit r),
       h_isActive := assign (set_isActive u) (h_isActive r),
       h_updatedAt := assign (set_updatedAt u) (h_updatedAt r)\<rparr>"

definition apply_EcoHabitLog_set :: "EcoHabitLog_set \<Rightarrow> EcoHabitLog \<Rightarrow> EcoHabitLog" where
  "apply_EcoHabitLog_set u r =
     r\<lparr>l_habitId := assign (set_habitId u) (l_habitId r),
       l_logDate := assign (set_logDate u) (l_logDate r),
       l_quantity := assign_nullable (set_quantity u) (l_quantity r),
       l_notes := assign_nullable (set_notes u) (l_notes r)\<rparr>"

definition update_EcoHabits ::
  "EcoHabit_set \<Rightarrow> (EcoHabit \<Rightarrow> bool) \<Rightarrow> db \<Rightarrow> (failure + unit) \<times> db" where
  "update_EcoHabits u c s =
     (let s' = s\<lparr>journal := journal s @ [Update Habits]\<rparr>
      in if \<not> (bindable (set_targetPerPeriod u) \<and> bindable (set_impactPerUnit u))
         then (Inl InternalServerError, s')
         else (Inr (),
               s'\<lparr>EcoHabits :=
                    map (\<lambda>r. if c r then apply_EcoHabit_set u r else r) (EcoHabits s)\<rparr>))"

definition update_EcoHabitLogs ::
  "EcoHabitLog_set \<Rightarrow> (EcoHabitLog \<Rightarrow> bool) \<Rightarrow> db \<Rightarrow> (failure + unit) \<times> db" where
  "update_EcoHabitLogs u c s =
     (let s' = s\<lparr>journal := journal s @ [Update HabitLogs]\<rparr>
      in if \<not> bindable (set_quantity u) then (Inl InternalServerError, s')
         else (Inr (),
               s'\<lparr>EcoHabitLogs :=
                    map (\<lambda>r. if c r then apply_EcoHabitLog_set u r else r)
                      (EcoHabitLogs s)\<rparr>))"

section \<open>The input schemas\<close>

text \<open>
  A schema takes the payload and gives the parsed input, or \<open>None\<close> when the payload is
  refused. \<^verbatim>\<open>z.string()\<close> and \<^verbatim>\<open>z.number()\<close> accept a value of that type only
  (for a number that includes the infinities: no schema says \<^verbatim>\<open>.finite()\<close>),
  \<^verbatim>\<open>.optional()\<close> lets \<^verbatim>\<open>undefined\<close> through, and \<^verbatim>\<open>z.object\<close> accepts an object
  and keeps the keys it declares.
\<close>

definition z_string :: "jsval \<Rightarrow> string option" where
  "z_string v = (case v of JStr s \<Rightarrow> Some s | _ \<Rightarrow> None)"

definition z_string_min :: "nat \<Rightarrow> jsval \<Rightarrow> string option" where
  "z_string_min n v = (case v of JStr s \<Rightarrow> if n \<le> length s then Some s else None | _ \<Rightarrow> None)"

definition z_number :: "jsval \<Rightarrow> number option" where
  "z_number v = (case v of JNum x \<Rightarrow> Some x | _ \<Rightarrow> None)"

definition z_number_positive :: "jsval \<Rightarrow> number option" where
  "z_number_positive v =
     (case v of JNum x \<Rightarrow> if is_positive x then Some x else None | _ \<Rightarrow> None)"

definition z_number_nonnegative :: "jsval \<Rightarrow> number option" where
  "z_number_nonnegative v =
     (case v of JNum x \<Rightarrow> if is_nonnegative x then Some x else None | _ \<Rightarrow> None)"

definition z_optional :: "(jsval \<Rightarrow> 'a option) \<Rightarrow> jsval \<Rightarrow> 'a option option" where
  "z_optional p v = (if v = JUndefined then Some None else map_option Some (p v))"

definition z_boolean_default :: "bool \<Rightarrow> jsval \<Rightarrow> bool option" where
  "z_boolean_default d v = (case v of JUndefined \<Rightarrow> Some d | JBool b \<Rightarrow> Some b | _ \<Rightarrow> None)"

text \<open>
  \<^verbatim>\<open>z.coerce.date()\<close> passes the value to the \<^verbatim>\<open>Date\<close> constructor and refuses an
  Invalid Date. The constructor is a parameter \<open>newDate\<close> of the model (\<open>None\<close> for an
  Invalid Date): what it makes of a string is outside the repository.
\<close>

definition z_coerce_date :: "(jsval \<Rightarrow> date option) \<Rightarrow> jsval \<Rightarrow> date option" where
  "z_coerce_date newDate v = newDate v"

record habitFields =
  f_name :: string
  f_description :: "string option"
  f_category :: "string option"
  f_frequency :: "string option"
  f_targetPerPeriod :: "number option"
  f_impactPerUnit :: "number option"
  f_impactUnit :: "string option"

definition habitFieldsSchema :: "jsval \<Rightarrow> habitFields option" where
  "habitFieldsSchema v =
     (case v of
        JObj kvs \<Rightarrow> do {
          name \<leftarrow> z_string_min 1 (field kvs ''name'');
          description \<leftarrow> z_optional z_string (field kvs ''description'');
          category \<leftarrow> z_optional z_string (field kvs ''category'');
          frequency \<leftarrow> z_optional z_string (field kvs ''frequency'');
          targetPerPeriod \<leftarrow> z_optional z_number_positive (field kvs ''targetPerPeriod'');
          impactPerUnit \<leftarrow> z_optional z_number (field kvs ''impactPerUnit'');
          impactUnit \<leftarrow> z_optional z_string (field kvs ''impactUnit'');
          Some \<lparr>f_name = name, f_description = description, f_category = category,
                f_frequency = frequency, f_targetPerPeriod = targetPerPeriod,
                f_impactPerUnit = impactPerUnit, f_impactUnit = impactUnit\<rparr>
        }
      | _ \<Rightarrow> None)"

text \<open>
  The input of \<^verbatim>\<open>updateHabit\<close>: \<^verbatim>\<open>habitFieldsSchema.partial()\<close> makes every field
  optional, \<^verbatim>\<open>.extend\<close> adds the required \<^verbatim>\<open>id\<close>, and \<^verbatim>\<open>.refine\<close> refuses a payload
  in which none of the seven fields is defined.
\<close>

record updateHabit_input =
  u_name :: "string option"
  u_description :: "string option"
  u_category :: "string option"
  u_frequency :: "string option"
  u_targetPerPeriod :: "number option"
  u_impactPerUnit :: "number option"
  u_impactUnit :: "string option"
  u_id :: string

definition updateHabit_refine :: "updateHabit_input \<Rightarrow> bool" where
  "updateHabit_refine payload =
     list_ex (\<lambda>defined. defined)
       [u_name payload \<noteq> None, u_description payload \<noteq> None, u_category payload \<noteq> None,
        u_frequency payload \<noteq> None, u_targetPerPeriod payload \<noteq> None,
        u_impactPerUnit payload \<noteq> None, u_impactUnit payload \<noteq> None]"

definition updateHabit_schema :: "jsval \<Rightarrow> updateHabit_input option" where
  "updateHabit_schema v =
     (case v of
        JObj kvs \<Rightarrow> do {
          name \<leftarrow> z_optional (z_string_min 1) (field kvs ''name'');
          description \<leftarrow> z_optional z_string (field kvs ''description'');
          category \<leftarrow> z_optional z_string (field kvs ''category'');
          frequency \<leftarrow> z_optional z_string (field kvs ''frequency'');
          targetPerPeriod \<leftarrow> z_optional z_number_positive (field kvs ''targetPerPeriod'');
          impactPerUnit \<leftarrow> z_optional z_number (field kvs ''impactPerUnit'');
          impactUnit \<leftarrow> z_optional z_string (field kvs ''impactUnit'');
          id \<leftarrow> z_string (field kvs ''id'');
          let payload = \<lparr>u_name = name, u_description = description, u_category = category,
                u_frequency = frequency, u_targetPerPeriod = targetPerPeriod,
                u_impactPerUnit = impactPerUnit, u_impactUnit = impactUnit, u_id = id\<rparr>;
          if updateHabit_refine payload then Some payload else None
        }
      | _ \<Rightarrow> None)"

record archiveHabit_input =
  a_id :: string

definition archiveHabit_schema :: "jsval \<Rightarrow> archiveHabit_input option" where
  "archiveHabit_schema v =
     (case v of
        JObj kvs \<Rightarrow> do { id \<leftarrow> z_string (field kvs ''id''); Some \<lparr>a_id = id\<rparr> }
      | _ \<Rightarrow> None)"

record listMyHabits_input =
  includeInactive :: bool

definition listMyHabits_schema :: "jsval \<Rightarrow> listMyHabits_input option" where
  "listMyHabits_schema v =
     (case v of
        JObj kvs \<Rightarrow> do {
          b \<leftarrow> z_boolean_default False (field kvs ''includeInactive'');
          Some \<lparr>includeInactive = b\<rparr>
        }
      | _ \<Rightarrow> None)"

record upsertHabitLog_input =
  i_id :: "string option"
  i_habitId :: string
  i_logDate :: "date option"
  i_quantity :: "number option"
  i_notes :: "string option"

definition upsertHabitLog_schema ::
  "(jsval \<Rightarrow> date option) \<Rightarrow> jsval \<Rightarrow> upsertHabitLog_input option" where
  "upsertHabitLog_schema newDate v =
     (case v of
        JObj kvs \<Rightarrow> do {
          id \<leftarrow> z_optional z_string (field kvs ''id'');
          habitId \<leftarrow> z_string (field kvs ''habitId'');
          logDate \<leftarrow> z_optional (z_coerce_date newDate) (field kvs ''logDate'');
          quantity \<leftarrow> z_optional z_number_nonnegative (field kvs ''quantity'');
          notes \<leftarrow> z_optional z_string (field kvs ''notes'');
          Some \<lparr>i_id = id, i_habitId = habitId, i_logDate = logDate,
                i_quantity = quantity, i_notes = notes\<rparr>
        }
      | _ \<Rightarrow> None)"

text \<open>
  The input of \<^verbatim>\<open>listHabitLogs\<close> has \<^verbatim>\<open>.default({})\<close>: an undefined payload is parsed
  as the empty object.
\<close>

record listHabitLogs_input =
  q_habitId :: "string option"

definition listHabitLogs_schema :: "jsval \<Rightarrow> listHabitLogs_input option" where
  "listHabitLogs_schema v =
     (case (if v = JUndefined then JObj [] else v) of
        JObj kvs \<Rightarrow> do {
          habitId \<leftarrow> z_optional z_string (field kvs ''habitId'');
          Some \<lparr>q_habitId = habitId\<rparr>
        }
      | _ \<Rightarrow> None)"

text \<open>
  \<^verbatim>\<open>defineAction({input, handler})\<close>: the payload is parsed by the schema and the
  handler is called with the parsed input; a payload the schema refuses never reaches
  the handler.
\<close>

definition defineAction ::
  "(jsval \<Rightarrow> 'i option) \<Rightarrow> ('i \<Rightarrow> ActionAPIContext \<Rightarrow> db \<Rightarrow> (failure + 'o) \<times> db) \<Rightarrow>
   jsval \<Rightarrow> ActionAPIContext \<Rightarrow> db \<Rightarrow> (failure + 'o) \<times> db" where
  "defineAction schema handler payload ctx s =
     (case schema payload of
        None \<Rightarrow> (Inl ActionInputError, s)
      | Some input \<Rightarrow> handler input ctx s)"

section \<open>The actions of \<^verbatim>\<open>actions/index.ts\<close>\<close>

text \<open>
  A handler takes the parsed input, the call context and the database, and returns what
  it returns or throws together with the database it leaves. \<open>Inr d\<close> stands for the
  envelope \<^verbatim>\<open>{ success: true, data: d }\<close>. The values that a handler takes from its
  environment are parameters: \<open>uuid\<close> for \<^verbatim>\<open>crypto.randomUUID()\<close>, \<open>now\<close> for
  \<^verbatim>\<open>new Date()\<close>.
\<close>

definition requireUser :: "ActionAPIContext \<Rightarrow> failure + user" where
  "requireUser ctx =
     (case (case ctx_locals ctx of None \<Rightarrow> None | Some l \<Rightarrow> locals_user l) of
        None \<Rightarrow> Inl (ActionError UNAUTHORIZED ''You must be signed in to perform this action.'')
      | Some user \<Rightarrow> Inr user)"

definition getHabitForUser ::
  "string \<Rightarrow> string \<Rightarrow> db \<Rightarrow> (failure + EcoHabit option) \<times> db" where
  "getHabitForUser habitId userId s =
     (case select_EcoHabits (\<lambda>r. h_id r = habitId \<and> h_userId r = userId) s of
        (Inl e, s') \<Rightarrow> (Inl e, s')
      | (Inr rows, s') \<Rightarrow> (Inr (case rows of [] \<Rightarrow> None | habit # _ \<Rightarrow> Some habit), s'))"

text \<open>
  In a condition \<^verbatim>\<open>undefined\<close> and the empty string count as false and every other
  string as true: \<open>truthy v\<close> is the string under which \<^verbatim>\<open>if (v)\<close> takes its first
  branch.
\<close>

definition truthy :: "string option \<Rightarrow> string option" where
  "truthy v = (case v of None \<Rightarrow> None | Some x \<Rightarrow> if x = [] then None else Some x)"

record habit_data =
  habitId :: string

datatype upsert_mode = created | updated

record log_data =
  logId :: string
  mode :: upsert_mode

record 'a listing =
  items :: "'a list"
  total :: nat

definition createHabit_handler ::
  "string \<Rightarrow> date \<Rightarrow> habitFields \<Rightarrow> ActionAPIContext \<Rightarrow> db \<Rightarrow> (failure + habit_data) \<times> db" where
  "createHabit_handler uuid now input ctx s =
     (case requireUser ctx of
        Inl e \<Rightarrow> (Inl e, s)
      | Inr user \<Rightarrow>
          (case insert_EcoHabits
                  \<lparr>h_id = uuid, h_userId = user_id user, h_name = f_name input,
                   h_description = f_description input, h_category = f_category input,
                   h_frequency = f_frequency input,
                   h_targetPerPeriod = f_targetPerPeriod input,
                   h_impactPerUnit = f_impactPerUnit input, h_impactUnit = f_impactUnit input,
                   h_isActive = True, h_createdAt = now, h_updatedAt = now\<rparr> s of
             (Inl e, s') \<Rightarrow> (Inl e, s')
           | (Inr _, s') \<Rightarrow> (Inr \<lparr>habitId = uuid\<rparr>, s')))"

definition updateHabit_handler ::
  "date \<Rightarrow> updateHabit_input \<Rightarrow> ActionAPIContext \<Rightarrow> db \<Rightarrow> (failure + habit_data) \<times> db" where
  "updateHabit_handler now input ctx s =
     (case requireUser ctx of
        Inl e \<Rightarrow> (Inl e, s)
      | Inr user \<Rightarrow>
          (case getHabitForUser (u_id input) (user_id user) s of
             (Inl e, s1) \<Rightarrow> (Inl e, s1)
           | (Inr None, s1) \<Rightarrow> (Inl (ActionError NOT_FOUND ''Habit not found.''), s1)
           | (Inr (Some habit), s1) \<Rightarrow>
               (let updates =
                      \<lparr>set_name = u_name input, set_description = u_description input,
                       set_category = u_category input, set_frequency = u_frequency input,
                       set_targetPerPeriod = u_targetPerPeriod input,
                       set_impactPerUnit = u_impactPerUnit input,
                       set_impactUnit = u_impactUnit input,
                       set_isActive = None, set_updatedAt = Some now\<rparr>
                in case update_EcoHabits updates
                          (\<lambda>r. h_id r = u_id input \<and> h_userId r = user_id user) s1 of
                     (Inl e, s2) \<Rightarrow> (Inl e, s2)
                   | (Inr _, s2) \<Rightarrow> (Inr \<lparr>habitId = u_id input\<rparr>, s2))))"

definition archiveHabit_handler ::
  "date \<Rightarrow> archiveHabit_input \<Rightarrow> ActionAPIContext \<Rightarrow> db \<Rightarrow> (failure + habit_data) \<times> db" where
  "archiveHabit_handler now input ctx s =
     (case requireUser ctx of
        Inl e \<Rightarrow> (Inl e, s)
      | Inr user \<Rightarrow>
          (case getHabitForUser (a_id input) (user_id user) s of
             (Inl e, s1) \<Rightarrow> (Inl e, s1)
           | (Inr None, s1) \<Rightarrow> (Inl (ActionError NOT_FOUND ''Habit not found.''), s1)
           | (Inr (Some habit), s1) \<Rightarrow>
               (case update_EcoHabits
                       \<lparr>set_name = None, set_description = None, set_category = None,
                        set_frequency = None, set_targetPerPeriod = None,
                        set_impactPerUnit = None, set_impactUnit = None,
                        set_isActive = Some False, set_updatedAt = Some now\<rparr>
                       (\<lambda>r. h_id r = a_id input \<and> h_userId r = user_id user) s1 of
                  (Inl e, s2) \<Rightarrow> (Inl e, s2)
                | (Inr _, s2) \<Rightarrow> (Inr \<lparr>habitId = a_id input\<rparr>, s2))))"

definition listMyHabits_handler ::
  "listMyHabits_input \<Rightarrow> ActionAPIContext \<Rightarrow> db \<Rightarrow> (failure + EcoHabit listing) \<times> db" where
  "listMyHabits_handler input ctx s =
     (case requireUser ctx of
        Inl e \<Rightarrow> (Inl e, s)
      | Inr user \<Rightarrow>
          (let whereClause =
                 (if includeInactive input then (\<lambda>r. h_userId r = user_id user)
                  else (\<lambda>r. h_userId r = user_id user \<and> h_isActive r = True))
           in case select_EcoHabits whereClause s of
                (Inl e, s1) \<Rightarrow> (Inl e, s1)
              | (Inr habits, s1) \<Rightarrow> (Inr \<lparr>items = habits, total = length habits\<rparr>, s1)))"

text \<open>
  \<^verbatim>\<open>upsertHabitLog\<close> reads the clock twice on its create path: for the default of
  \<^verbatim>\<open>logDate\<close> and for \<^verbatim>\<open>createdAt\<close>.
\<close>

definition upsertHabitLog_handler ::
  "string \<Rightarrow> date \<Rightarrow> date \<Rightarrow> upsertHabitLog_input \<Rightarrow> ActionAPIContext \<Rightarrow> db \<Rightarrow>
   (failure + log_data) \<times> db" where
  "upsertHabitLog_handler uuid now_logDate now_createdAt input ctx s =
     (case requireUser ctx of
        Inl e \<Rightarrow> (Inl e, s)
      | Inr user \<Rightarrow>
          (case getHabitForUser (i_habitId input) (user_id user) s of
             (Inl e, s1) \<Rightarrow> (Inl e, s1)
           | (Inr None, s1) \<Rightarrow> (Inl (ActionError NOT_FOUND ''Habit not found.''), s1)
           | (Inr (Some habit), s1) \<Rightarrow>
               (case truthy (i_id input) of
                  Some log_id \<Rightarrow>
                    (case select_EcoHabitLogs
                            (\<lambda>r. l_id r = log_id \<and> l_userId r = user_id user) s1 of
                       (Inl e, s2) \<Rightarrow> (Inl e, s2)
                     | (Inr [], s2) \<Rightarrow>
                         (Inl (ActionError NOT_FOUND ''Habit log not found.''), s2)
                     | (Inr (existingLog # _), s2) \<Rightarrow>
                         (case update_EcoHabitLogs
                                 \<lparr>set_habitId = Some (i_habitId input),
                                  set_logDate =
                                    Some (case i_logDate input of
                                            None \<Rightarrow> l_logDate existingLog
                                          | Some d \<Rightarrow> d),
                                  set_quantity = i_quantity input,
                                  set_notes = i_notes input\<rparr>
                                 (\<lambda>r. l_id r = log_id \<and> l_userId r = user_id user) s2 of
                            (Inl e, s3) \<Rightarrow> (Inl e, s3)
                          | (Inr _, s3) \<Rightarrow> (Inr \<lparr>logId = log_id, mode = updated\<rparr>, s3)))
                | None \<Rightarrow>
                    (let logId = uuid in
                     case insert_EcoHabitLogs
                            \<lparr>l_id = logId, l_habitId = i_habitId input,
                             l_userId = user_id user,
                             l_logDate =
                               (case i_logDate input of None \<Rightarrow> now_logDate | Some d \<Rightarrow> d),
                             l_quantity = i_quantity input, l_notes = i_notes input,
                             l_createdAt = now_createdAt\<rparr> s1 of
                       (Inl e, s2) \<Rightarrow> (Inl e, s2)
                     | (Inr _, s2) \<Rightarrow> (Inr \<lparr>logId = logId, mode = created\<rparr>, s2)))))"

definition listHabitLogs_handler ::
  "listHabitLogs_input \<Rightarrow> ActionAPIContext \<Rightarrow> db \<Rightarrow> (failure + EcoHabitLog listing) \<times> db" where
  "listHabitLogs_handler input ctx s =
     (case requireUser ctx of
        Inl e \<Rightarrow> (Inl e, s)
      | Inr user \<Rightarrow>
          (let habitId = q_habitId input in
           case (case truthy habitId of
                   Some h \<Rightarrow>
                     (case getHabitForUser h (user_id user) s of
                        (Inl e, s1) \<Rightarrow> (Some e, s1)
                      | (Inr None, s1) \<Rightarrow>
                          (Some (ActionError NOT_FOUND ''Habit not found.''), s1)
                      | (Inr (Some habit), s1) \<Rightarrow> (None, s1))
                 | None \<Rightarrow> (None, s)) of
             (Some e, s1) \<Rightarrow> (Inl e, s1)
           | (None, s1) \<Rightarrow>
               (let whereClause =
                      (case truthy habitId of
                         Some h \<Rightarrow> (\<lambda>r. l_userId r = user_id user \<and> l_habitId r = h)
                       | None \<Rightarrow> (\<lambda>r. l_userId r = user_id user))
                in case select_EcoHabitLogs whereClause s1 of
                     (Inl e, s2) \<Rightarrow> (Inl e, s2)
                   | (Inr logs, s2) \<Rightarrow> (Inr \<lparr>items = logs, total = length logs\<rparr>, s2))))"

definition createHabit ::
  "string \<Rightarrow> date \<Rightarrow> jsval \<Rightarrow> ActionAPIContext \<Rightarrow> db \<Rightarrow> (failure + habit_data) \<times> db" where
  "createHabit uuid now = defineAction habitFieldsSchema (createHabit_handler uuid now)"

definition updateHabit ::
  "date \<Rightarrow> jsval \<Rightarrow> ActionAPIContext \<Rightarrow> db \<Rightarrow> (failure + habit_data) \<times> db" where
  "updateHabit now = defineAction updateHabit_schema (updateHabit_handler now)"

definition archiveHabit ::
  "date \<Rightarrow> jsval \<Rightarrow> ActionAPIContext \<Rightarrow> db \<Rightarrow> (failure + habit_data) \<times> db" where
  "archiveHabit now = defineAction archiveHabit_schema (archiveHabit_handler now)"

definition listMyHabits ::
  "jsval \<Rightarrow> ActionAPIContext \<Rightarrow> db \<Rightarrow> (failure + EcoHabit listing) \<times> db" where
  "listMyHabits = defineAction listMyHabits_schema listMyHabits_handler"

definition upsertHabitLog ::
  "(jsval \<Rightarrow> date option) \<Rightarrow> string \<Rightarrow> date \<Rightarrow> date \<Rightarrow> jsval \<Rightarrow> ActionAPIContext \<Rightarrow> db \<Rightarrow>
   (failure + log_data) \<times> db" where
  "upsertHabitLog newDate uuid now_logDate now_createdAt =
     defineAction (upsertHabitLog_schema newDate)
       (upsertHabitLog_handler uuid now_logDate now_createdAt)"

definition listHabitLogs ::
  "jsval \<Rightarrow> ActionAPIContext \<Rightarrow> db \<Rightarrow> (failure + EcoHabitLog listing) \<times> db" where
  "listHabitLogs = defineAction listHabitLogs_schema listHabitLogs_handler"

section \<open>Notions used to state the properties\<close>

text \<open>A call context that carries no caller identity.\<close>

definition signed_out :: "ActionAPIContext \<Rightarrow> bool" where
  "signed_out ctx = (case ctx_locals ctx of None \<Rightarrow> True | Some l \<Rightarrow> locals_user l = None)"

text \<open>The habit \<open>hid\<close> is in the table and belongs to \<open>uid\<close>.\<close>

definition habit_owned :: "db \<Rightarrow> string \<Rightarrow> string \<Rightarrow> bool" where
  "habit_owned s uid hid =
     list_ex (\<lambda>r. h_id r = hid \<and> h_userId r = uid) (EcoHabits s)"

text \<open>The log \<open>lid\<close> is in the table and belongs to \<open>uid\<close>.\<close>

definition log_owned :: "db \<Rightarrow> string \<Rightarrow> string \<Rightarrow> bool" where
  "log_owned s uid lid =
     list_ex (\<lambda>r. l_id r = lid \<and> l_userId r = uid) (EcoHabitLogs s)"

text \<open>
  The select of the habit \<open>hid\<close> of \<open>uid\<close> does not throw: no row it matches holds an
  integer that the client refuses. Likewise for the log \<open>lid\<close> of \<open>uid\<close>.
\<close>

definition habit_readable :: "db \<Rightarrow> string \<Rightarrow> string \<Rightarrow> bool" where
  "habit_readable s uid hid =
     (\<not> list_ex unreadable_EcoHabit
          (filter (\<lambda>r. h_id r = hid \<and> h_userId r = uid) (EcoHabits s)))"

definition log_readable :: "db \<Rightarrow> string \<Rightarrow> string \<Rightarrow> bool" where
  "log_readable s uid lid =
     (\<not> list_ex unreadable_EcoHabitLog
          (filter (\<lambda>r. l_id r = lid \<and> l_userId r = uid) (EcoHabitLogs s)))"

text \<open>
  A log is read back as it is stored: the client does not refuse it, and none of its
  texts is cut.
\<close>

definition read_as_stored :: "EcoHabitLog \<Rightarrow> bool" where
  "read_as_stored l = (\<not> unreadable_EcoHabitLog l \<and> read_EcoHabitLog l = l)"

text \<open>
  What the tables guarantee of their content: \<^verbatim>\<open>id\<close> is a primary key, and every id
  was made by \<^verbatim>\<open>crypto.randomUUID()\<close>, which never returns the empty string.
\<close>

definition db_ok :: "db \<Rightarrow> bool" where
  "db_ok s =
     (distinct (map h_id (EcoHabits s)) \<and> distinct (map l_id (EcoHabitLogs s)) \<and>
      list_all (\<lambda>r. h_id r \<noteq> []) (EcoHabits s) \<and>
      list_all (\<lambda>r. l_id r \<noteq> []) (EcoHabitLogs s))"

text \<open>
  A call of one of the six actions, with the values it takes from its environment, and
  the database it leaves.
\<close>

datatype call =
    CreateHabit string date jsval ActionAPIContext
  | UpdateHabit date jsval ActionAPIContext
  | ArchiveHabit date jsval ActionAPIContext
  | ListMyHabits jsval ActionAPIContext
  | UpsertHabitLog string date date jsval ActionAPIContext
  | ListHabitLogs jsval ActionAPIContext

fun perform :: "(jsval \<Rightarrow> date option) \<Rightarrow> call \<Rightarrow> db \<Rightarrow> db" where
  "perform newDate (CreateHabit uuid now p ctx) s = snd (createHabit uuid now p ctx s)"
| "perform newDate (UpdateHabit now p ctx) s = snd (updateHabit now p ctx s)"
| "perform newDate (ArchiveHabit now p ctx) s = snd (archiveHabit now p ctx s)"
| "perform newDate (ListMyHabits p ctx) s = snd (listMyHabits p ctx s)"
| "perform newDate (UpsertHabitLog uuid now_logDate now_createdAt p ctx) s =
     snd (upsertHabitLog newDate uuid now_logDate now_createdAt p ctx s)"
| "perform newDate (ListHabitLogs p ctx) s = snd (listHabitLogs p ctx s)"

fun uuid_nonempty :: "call \<Rightarrow> bool" where
  "uuid_nonempty (CreateHabit uuid now p ctx) = (uuid \<noteq> [])"
| "uuid_nonempty (UpsertHabitLog uuid now_logDate now_createdAt p ctx) = (uuid \<noteq> [])"
| "uuid_nonempty _ = True"

text \<open>
  What a client sees of the creation of a log: a call of \<^verbatim>\<open>upsertHabitLog\<close> that returns
  mode \<^verbatim>\<open>created\<close> tells the new \<^verbatim>\<open>logId\<close>; with it go the identity of the caller and
  the clock reading of the call.
\<close>

fun creation :: "(jsval \<Rightarrow> date option) \<Rightarrow> call \<Rightarrow> db \<Rightarrow> (string \<times> string \<times> date) list" where
  "creation newDate (UpsertHabitLog uuid now_logDate now_createdAt p ctx) s =
     (case (requireUser ctx,
            fst (upsertHabitLog newDate uuid now_logDate now_createdAt p ctx s)) of
        (Inr user, Inr d) \<Rightarrow>
          if mode d = created then [(logId d, user_id user, now_createdAt)] else []
      | _ \<Rightarrow> [])"
| "creation newDate _ s = []"

text \<open>A sequence of calls, one after the other: the database left and the creations seen.\<close>

fun run :: "(jsval \<Rightarrow> date option) \<Rightarrow> call list \<Rightarrow> db \<Rightarrow> db \<times> (string \<times> string \<times> date) list" where
  "run newDate [] s = (s, [])"
| "run newDate (c # cs) s =
     (case run newDate cs (perform newDate c s) of
        (s', seen) \<Rightarrow> (s', creation newDate c s @ seen))"

text \<open>
  Where a log comes from: its id, its owner and the time of its creation.
\<close>

definition origin :: "EcoHabitLog \<Rightarrow> string \<times> string \<times> date" where
  "origin l = (l_id l, l_userId l, l_createdAt l)"

section \<open>An example database\<close>

text \<open>
  Two users and their records, for the concrete runs below. \<open>date_values\<close> is the
  \<^verbatim>\<open>Date\<close> constructor restricted to values that are dates already.
\<close>

definition signed_in :: "string \<Rightarrow> ActionAPIContext" where
  "signed_in uid = \<lparr>ctx_locals = Some \<lparr>locals_user = Some \<lparr>user_id = uid\<rparr>\<rparr>\<rparr>"

definition habit_h1 :: EcoHabit where
  "habit_h1 =
     \<lparr>h_id = ''h1'', h_userId = ''bob'', h_name = ''Bike to work'', h_description = None,
      h_category = Some ''transport'', h_frequency = None, h_targetPerPeriod = Some (Num 3),
      h_impactPerUnit = None, h_impactUnit = None, h_isActive = True,
      h_createdAt = 100, h_updatedAt = 100\<rparr>"

definition habit_h2 :: EcoHabit where
  "habit_h2 =
     \<lparr>h_id = ''h2'', h_userId = ''alice'', h_name = ''Reusable bottle'', h_description = None,
      h_category = Some ''waste'', h_frequency = Some ''daily'', h_targetPerPeriod = None,
      h_impactPerUnit = None, h_impactUnit = None, h_isActive = True,
      h_createdAt = 120, h_updatedAt = 120\<rparr>"

definition log_l1 :: EcoHabitLog where
  "log_l1 =
     \<lparr>l_id = ''l1'', l_habitId = ''h1'', l_userId = ''bob'', l_logDate = 150,
      l_quantity = Some (Num 1), l_notes = None, l_createdAt = 151\<rparr>"

definition log_l2 :: EcoHabitLog where
  "log_l2 =
     \<lparr>l_id = ''l2'', l_habitId = ''h2'', l_userId = ''alice'', l_logDate = 160,
      l_quantity = Some (Num 5), l_notes = Some ''two refills'', l_createdAt = 161\<rparr>"

definition example_db :: db where
  "example_db = \<lparr>EcoHabits = [habit_h1, habit_h2], EcoHabitLogs = [log_l1, log_l2], journal = []\<rparr>"

definition date_values :: "jsval \<Rightarrow> date option" where
  "date_values v = (case v of JDate d \<Rightarrow> Some d | _ \<Rightarrow> None)"

text \<open>
  Three calls by alice: she logs her habit \<^verbatim>\<open>h2\<close>, creates a habit, and moves the new
  log to it.
\<close>

definition example_calls :: "call list" where
  "example_calls =
     [UpsertHabitLog ''l9'' 300 301
        (JObj [(''habitId'', JStr ''h2''), (''quantity'', JNum (Num 2))]) (signed_in ''alice''),
      CreateHabit ''h3'' 310 (JObj [(''name'', JStr ''Compost'')]) (signed_in ''alice''),
      UpsertHabitLog ''l10'' 320 321
        (JObj [(''id'', JStr ''l9''), (''habitId'', JStr ''h3'')]) (signed_in ''alice'')]"

text \<open>
  A habit whose target is \<^verbatim>\<open>2^53\<close>: the schema of \<^verbatim>\<open>createHabit\<close> accepts the payload and
  the row is stored.
\<close>

definition big_target :: jsval where
  "big_target =
     JObj [(''name'', JStr ''Compost''), (''targetPerPeriod'', JNum (Num 9007199254740992))]"

definition habit_h3 :: EcoHabit where
  "habit_h3 =
     \<lparr>h_id = ''h3'', h_userId = ''alice'', h_name = ''Compost'', h_description = None,
      h_category = None, h_frequency = None, h_targetPerPeriod = Some (Num 9007199254740992),
      h_impactPerUnit = None, h_impactUnit = None, h_isActive = True,
      h_createdAt = 310, h_updatedAt = 310\<rparr>"

definition after_big_target :: db where
  "after_big_target = snd (createHabit ''h3'' 310 big_target (signed_in ''alice'') example_db)"

section \<open>Properties of the actions\<close>

subsection \<open>Authentication and validation\<close>

lemmas action_defs =
  createHabit_def updateHabit_def archiveHabit_def listMyHabits_def upsertHabitLog_def
  listHabitLogs_def defineAction_def

lemmas handler_defs =
  createHabit_handler_def updateHabit_handler_def archiveHabit_handler_def
  listMyHabits_handler_def upsertHabitLog_handler_def listHabitLogs_handler_def

lemmas db_defs =
  select_EcoHabits_def select_EcoHabitLogs_def insert_EcoHabits_def insert_EcoHabitLogs_def
  update_EcoHabits_def update_EcoHabitLogs_def apply_EcoHabit_set_def apply_EcoHabitLog_set_def
  assign_def assign_nullable_def getHabitForUser_def requireUser_def truthy_def Let_def
  bindable_def finite_number_def unsafe_column_def unsafe_integer_def unreadable_EcoHabit_def
  unreadable_EcoHabitLog_def read_EcoHabit_def read_EcoHabitLog_def cut_text_def

lemmas schema_defs =
  habitFieldsSchema_def updateHabit_schema_def updateHabit_refine_def archiveHabit_schema_def
  listMyHabits_schema_def upsertHabitLog_schema_def listHabitLogs_schema_def field_def
  z_string_def z_string_min_def z_number_def z_number_positive_def z_number_nonnegative_def
  z_optional_def z_boolean_default_def z_coerce_date_def is_positive_def is_nonnegative_def

lemmas example_defs =
  signed_in_def habit_h1_def habit_h2_def habit_h3_def log_l1_def log_l2_def example_db_def
  date_values_def big_target_def

lemma requireUser_signed_out:
  "signed_out ctx \<Longrightarrow>
   requireUser ctx =
     Inl (ActionError UNAUTHORIZED ''You must be signed in to perform this action.'')"
  by (simp add: signed_out_def requireUser_def split: option.splits)

lemma requireUser_signed_in: "requireUser (signed_in uid) = Inr \<lparr>user_id = uid\<rparr>"
  by (simp add: requireUser_def signed_in_def)

lemma z_optional_undefined: "z_optional p JUndefined = Some None"
  by (simp add: z_optional_def)

text \<open>
  C5. A payload of \<^verbatim>\<open>updateHabit\<close> in which none of the seven habit fields is defined
  (whatever its \<^verbatim>\<open>id\<close>) is refused with the input error, and the database is left as it
  was, journal included: no statement was executed. Neither the call context nor the
  content of the tables matters.
\<close>

theorem updateHabit_only_id_rejected:
  assumes "field kvs ''name'' = JUndefined"
    and "field kvs ''description'' = JUndefined"
    and "field kvs ''category'' = JUndefined"
    and "field kvs ''frequency'' = JUndefined"
    and "field kvs ''targetPerPeriod'' = JUndefined"
    and "field kvs ''impactPerUnit'' = JUndefined"
    and "field kvs ''impactUnit'' = JUndefined"
  shows "updateHabit now (JObj kvs) ctx s = (Inl ActionInputError, s)"
proof -
  have "updateHabit_schema (JObj kvs) = None"
    using assms
    by (simp add: updateHabit_schema_def z_optional_undefined updateHabit_refine_def
        split: Option.bind_splits)
  then show ?thesis
    by (simp add: updateHabit_def defineAction_def)
qed

theorem updateHabit_only_id_rejected_witness:
  "updateHabit 7 (JObj [(''id'', JStr ''h1'')]) \<lparr>ctx_locals = None\<rparr>
     \<lparr>EcoHabits = [], EcoHabitLogs = [], journal = []\<rparr>
   = (Inl ActionInputError, \<lparr>EcoHabits = [], EcoHabitLogs = [], journal = []\<rparr>)"
  by (rule updateHabit_only_id_rejected) (simp_all add: field_def)

text \<open>
  C3, as the code has it. The payload is parsed before the handler runs, and
  \<^verbatim>\<open>requireUser\<close> is the first statement of every handler. So each of the six actions
  answers a payload that its input schema refuses with the input error, whether or not
  the call context carries an identity; and it answers a payload that passes the schema,
  in a call context that carries no identity, with UNAUTHORIZED. In both cases the
  database is left as it was, journal included: no statement was executed.
\<close>

theorem unauthorized_after_validation:
  "(habitFieldsSchema p = None \<or> signed_out ctx \<longrightarrow>
      createHabit uuid now p ctx s =
        (Inl (if habitFieldsSchema p = None then ActionInputError
              else ActionError UNAUTHORIZED ''You must be signed in to perform this action.''), s))
   \<and> (updateHabit_schema p = None \<or> signed_out ctx \<longrightarrow>
      updateHabit now p ctx s =
        (Inl (if updateHabit_schema p = None then ActionInputError
              else ActionError UNAUTHORIZED ''You must be signed in to perform this action.''), s))
   \<and> (archiveHabit_schema p = None \<or> signed_out ctx \<longrightarrow>
      archiveHabit now p ctx s =
        (Inl (if archiveHabit_schema p = None then ActionInputError
              else ActionError UNAUTHORIZED ''You must be signed in to perform this action.''), s))
   \<and> (listMyHabits_schema p = None \<or> signed_out ctx \<longrightarrow>
      listMyHabits p ctx s =
        (Inl (if listMyHabits_schema p = None then ActionInputError
              else ActionError UNAUTHORIZED ''You must be signed in to perform this action.''), s))
   \<and> (upsertHabitLog_schema newDate p = None \<or> signed_out ctx \<longrightarrow>
      upsertHabitLog newDate uuid now now' p ctx s =
        (Inl (if upsertHabitLog_schema newDate p = None then ActionInputError
              else ActionError UNAUTHORIZED ''You must be signed in to perform this action.''), s))
   \<and> (listHabitLogs_schema p = None \<or> signed_out ctx \<longrightarrow>
      listHabitLogs p ctx s =
        (Inl (if listHabitLogs_schema p = None then ActionInputError
              else ActionError UNAUTHORIZED ''You must be signed in to perform this action.''), s))"
  using requireUser_signed_out [of ctx]
  by (auto simp: action_defs handler_defs split: option.splits)

theorem unauthorized_after_validation_witness:
  "signed_out \<lparr>ctx_locals = Some \<lparr>locals_user = None\<rparr>\<rparr>
   \<and> habitFieldsSchema (JObj [(''name'', JStr ''Bike to work'')]) \<noteq> None
   \<and> createHabit ''id1'' 5 (JObj [(''name'', JStr ''Bike to work'')])
        \<lparr>ctx_locals = Some \<lparr>locals_user = None\<rparr>\<rparr> example_db
      = (Inl (ActionError UNAUTHORIZED ''You must be signed in to perform this action.''),
         example_db)
   \<and> \<not> signed_out (signed_in ''alice'')
   \<and> habitFieldsSchema (JObj []) = None
   \<and> createHabit ''id1'' 5 (JObj []) (signed_in ''alice'') example_db
      = (Inl ActionInputError, example_db)"
proof -
  have h: "signed_out \<lparr>ctx_locals = Some \<lparr>locals_user = None\<rparr>\<rparr>"
    and i: "\<not> signed_out (signed_in ''alice'')"
    by (simp_all add: signed_out_def signed_in_def)
  have a: "habitFieldsSchema (JObj [(''name'', JStr ''Bike to work'')]) \<noteq> None"
    and b: "habitFieldsSchema (JObj []) = None"
    by (simp_all add: habitFieldsSchema_def field_def z_string_min_def z_optional_def)
  from unauthorized_after_validation
    [where p = "JObj [(''name'', JStr ''Bike to work'')]" and s = example_db
      and ctx = "\<lparr>ctx_locals = Some \<lparr>locals_user = None\<rparr>\<rparr>" and uuid = "''id1''" and now = 5,
      THEN conjunct1] h a
  have 1: "createHabit ''id1'' 5 (JObj [(''name'', JStr ''Bike to work'')])
        \<lparr>ctx_locals = Some \<lparr>locals_user = None\<rparr>\<rparr> example_db
      = (Inl (ActionError UNAUTHORIZED ''You must be signed in to perform this action.''),
         example_db)"
    by simp
  from unauthorized_after_validation
    [where p = "JObj []" and s = example_db and ctx = "signed_in ''alice''"
      and uuid = "''id1''" and now = 5, THEN conjunct1] b
  have 2: "createHabit ''id1'' 5 (JObj []) (signed_in ''alice'') example_db
      = (Inl ActionInputError, example_db)"
    by simp
  from 1 2 h i a b show ?thesis by simp
qed

text \<open>
  The claim as it is written fails on a payload that the schema refuses: \<^verbatim>\<open>createHabit\<close>
  with the empty object and no identity answers with the input error, not UNAUTHORIZED.
\<close>

theorem unauthorized_invalid_payload_counterexample:
  "signed_out \<lparr>ctx_locals = None\<rparr>
   \<and> fst (createHabit ''id1'' 5 (JObj []) \<lparr>ctx_locals = None\<rparr>
        \<lparr>EcoHabits = [], EcoHabitLogs = [], journal = []\<rparr>) = Inl ActionInputError
   \<and> fst (createHabit ''id1'' 5 (JObj []) \<lparr>ctx_locals = None\<rparr>
        \<lparr>EcoHabits = [], EcoHabitLogs = [], journal = []\<rparr>)
      \<noteq> Inl (ActionError UNAUTHORIZED ''You must be signed in to perform this action.'')"
  by (simp add: signed_out_def createHabit_def defineAction_def habitFieldsSchema_def field_def
      z_string_min_def)

subsection \<open>Ownership\<close>

lemma habit_owned_iff:
  "habit_owned s u h \<longleftrightarrow> (\<exists>r \<in> set (EcoHabits s). h_id r = h \<and> h_userId r = u)"
  by (simp add: habit_owned_def list_ex_iff)

lemma log_owned_iff:
  "log_owned s u i \<longleftrightarrow> (\<exists>r \<in> set (EcoHabitLogs s). l_id r = i \<and> l_userId r = u)"
  by (simp add: log_owned_def list_ex_iff)

lemma not_owned_readable:
  "\<not> habit_owned s u h \<Longrightarrow> habit_readable s u h"
  "\<not> log_owned s u i \<Longrightarrow> log_readable s u i"
  by (simp_all add: habit_owned_iff log_owned_iff habit_readable_def log_readable_def
      filter_empty_conv [THEN iffD2])

lemma getHabitForUser_not_owned:
  "\<not> habit_owned s u h \<Longrightarrow>
   getHabitForUser h u s = (Inr None, s\<lparr>journal := journal s @ [Select Habits]\<rparr>)"
  by (simp add: getHabitForUser_def select_EcoHabits_def habit_owned_iff
      filter_empty_conv [THEN iffD2])

lemma getHabitForUser_unreadable:
  "\<not> habit_readable s u h \<Longrightarrow>
   getHabitForUser h u s =
     (Inl InternalServerError, s\<lparr>journal := journal s @ [Select Habits]\<rparr>)"
  by (simp add: getHabitForUser_def select_EcoHabits_def habit_readable_def)

lemma getHabitForUser_owned:
  assumes "habit_owned s u h" and "habit_readable s u h"
  shows "\<exists>r. getHabitForUser h u s =
            (Inr (Some r), s\<lparr>journal := journal s @ [Select Habits]\<rparr>)"
proof (cases "filter (\<lambda>r. h_id r = h \<and> h_userId r = u) (EcoHabits s)")
  case Nil
  with assms(1) show ?thesis
    by (auto simp: habit_owned_iff filter_empty_conv)
next
  case (Cons r rs)
  with assms(2) show ?thesis
    by (simp add: getHabitForUser_def select_EcoHabits_def habit_readable_def)
qed

lemma distinct_same_key:
  assumes "distinct (map f xs)" and "x \<in> set xs" and "y \<in> set xs" and "f x = f y"
  shows "x = y"
proof -
  from assms(1) have "inj_on f (set xs)"
    by (simp add: distinct_map)
  with assms(2-4) show ?thesis
    by (simp add: inj_on_eq_iff)
qed

lemma habit_of_other_user:
  assumes "distinct (map h_id (EcoHabits s))"
    and "b \<in> set (EcoHabits s)" and "h_userId b \<noteq> u"
  shows "\<not> habit_owned s u (h_id b)"
proof
  assume "habit_owned s u (h_id b)"
  then obtain r where r: "r \<in> set (EcoHabits s)" "h_id r = h_id b" "h_userId r = u"
    by (auto simp: habit_owned_iff)
  from distinct_same_key [OF assms(1) r(1) assms(2) r(2)] r(3) assms(3) show False
    by simp
qed

lemma log_of_other_user:
  assumes "distinct (map l_id (EcoHabitLogs s))"
    and "b \<in> set (EcoHabitLogs s)" and "l_userId b \<noteq> u"
  shows "\<not> log_owned s u (l_id b)"
proof
  assume "log_owned s u (l_id b)"
  then obtain r where r: "r \<in> set (EcoHabitLogs s)" "l_id r = l_id b" "l_userId r = u"
    by (auto simp: log_owned_iff)
  from distinct_same_key [OF assms(1) r(1) assms(2) r(2)] r(3) assms(3) show False
    by simp
qed

lemma updateHabit_not_owned:
  assumes "updateHabit_schema p = Some inp" and "requireUser ctx = Inr a"
    and "\<not> habit_owned s (user_id a) (u_id inp)"
  shows "updateHabit now p ctx s =
           (Inl (ActionError NOT_FOUND ''Habit not found.''),
            s\<lparr>journal := journal s @ [Select Habits]\<rparr>)"
  using assms
  by (simp add: updateHabit_def defineAction_def updateHabit_handler_def
      getHabitForUser_not_owned)

lemma archiveHabit_not_owned:
  assumes "archiveHabit_schema p = Some inp" and "requireUser ctx = Inr a"
    and "\<not> habit_owned s (user_id a) (a_id inp)"
  shows "archiveHabit now p ctx s =
           (Inl (ActionError NOT_FOUND ''Habit not found.''),
            s\<lparr>journal := journal s @ [Select Habits]\<rparr>)"
  using assms
  by (simp add: archiveHabit_def defineAction_def archiveHabit_handler_def
      getHabitForUser_not_owned)

lemma upsertHabitLog_not_owned:
  assumes "upsertHabitLog_schema newDate p = Some inp" and "requireUser ctx = Inr a"
    and "\<not> habit_owned s (user_id a) (i_habitId inp)"
  shows "upsertHabitLog newDate uuid now now' p ctx s =
           (Inl (ActionError NOT_FOUND ''Habit not found.''),
            s\<lparr>journal := journal s @ [Select Habits]\<rparr>)"
  using assms
  by (simp add: upsertHabitLog_def defineAction_def upsertHabitLog_handler_def
      getHabitForUser_not_owned)

lemma upsertHabitLog_habit_unreadable:
  assumes "upsertHabitLog_schema newDate p = Some inp" and "requireUser ctx = Inr a"
    and "\<not> habit_readable s (user_id a) (i_habitId inp)"
  shows "upsertHabitLog newDate uuid now now' p ctx s =
           (Inl InternalServerError, s\<lparr>journal := journal s @ [Select Habits]\<rparr>)"
  using assms
  by (simp add: upsertHabitLog_def defineAction_def upsertHabitLog_handler_def
      getHabitForUser_unreadable)

lemma listHabitLogs_not_owned:
  assumes "listHabitLogs_schema p = Some inp" and "requireUser ctx = Inr a"
    and "truthy (q_habitId inp) = Some h"
    and "\<not> habit_owned s (user_id a) h"
  shows "listHabitLogs p ctx s =
           (Inl (ActionError NOT_FOUND ''Habit not found.''),
            s\<lparr>journal := journal s @ [Select Habits]\<rparr>)"
  using assms
  by (simp add: listHabitLogs_def defineAction_def listHabitLogs_handler_def
      getHabitForUser_not_owned)

lemma select_log_not_owned:
  "\<not> log_owned s u i \<Longrightarrow>
   select_EcoHabitLogs (\<lambda>r. l_id r = i \<and> l_userId r = u) s =
     (Inr [], s\<lparr>journal := journal s @ [Select HabitLogs]\<rparr>)"
  by (simp add: select_EcoHabitLogs_def log_owned_iff filter_empty_conv [THEN iffD2])

lemma upsertHabitLog_log_not_owned:
  assumes "upsertHabitLog_schema newDate p = Some inp" and "requireUser ctx = Inr a"
    and "habit_owned s (user_id a) (i_habitId inp)"
    and "habit_readable s (user_id a) (i_habitId inp)"
    and "truthy (i_id inp) = Some i"
    and "\<not> log_owned s (user_id a) i"
  shows "upsertHabitLog newDate uuid now now' p ctx s =
           (Inl (ActionError NOT_FOUND ''Habit log not found.''),
            s\<lparr>journal := journal s @ [Select Habits, Select HabitLogs]\<rparr>)"
proof -
  from getHabitForUser_owned [OF assms(3,4)] obtain r where
    "getHabitForUser (i_habitId inp) (user_id a) s =
       (Inr (Some r), s\<lparr>journal := journal s @ [Select Habits]\<rparr>)"
    by blast
  moreover have "\<not> log_owned (s\<lparr>journal := journal s @ [Select Habits]\<rparr>) (user_id a) i"
    using assms(6) by (simp add: log_owned_def)
  ultimately show ?thesis
    using assms(1,2,5)
    by (simp add: upsertHabitLog_def defineAction_def upsertHabitLog_handler_def
        select_log_not_owned)
qed

text \<open>
  C1. With the keys of the tables as \<open>db_ok\<close> says, let a signed-in caller name a habit
  that is in the table and belongs to another user: \<^verbatim>\<open>updateHabit\<close>,
  \<^verbatim>\<open>archiveHabit\<close>, \<^verbatim>\<open>upsertHabitLog\<close> and \<^verbatim>\<open>listHabitLogs\<close> all fail with
  NOT_FOUND, which carries a fixed message and no data, after one select on the habits;
  both tables are left as they were. When the caller names, under a habit of their own,
  a log that belongs to another user, \<^verbatim>\<open>upsertHabitLog\<close> fails as well and leaves both
  tables as they were: with NOT_FOUND after the two selects, or already at the first
  select when the caller's own habit cannot be read.
\<close>

theorem other_users_records_not_found:
  assumes ok: "db_ok s" and auth: "requireUser ctx = Inr a"
    and b: "b \<in> set (EcoHabits s)" "h_userId b \<noteq> user_id a"
  shows "(updateHabit_schema pu = Some iu \<and> u_id iu = h_id b \<longrightarrow>
           updateHabit now pu ctx s =
             (Inl (ActionError NOT_FOUND ''Habit not found.''),
              s\<lparr>journal := journal s @ [Select Habits]\<rparr>))
       \<and> (archiveHabit_schema pa = Some ia \<and> a_id ia = h_id b \<longrightarrow>
           archiveHabit now pa ctx s =
             (Inl (ActionError NOT_FOUND ''Habit not found.''),
              s\<lparr>journal := journal s @ [Select Habits]\<rparr>))
       \<and> (upsertHabitLog_schema newDate pl = Some il \<and> i_habitId il = h_id b \<longrightarrow>
           upsertHabitLog newDate uuid now now' pl ctx s =
             (Inl (ActionError NOT_FOUND ''Habit not found.''),
              s\<lparr>journal := journal s @ [Select Habits]\<rparr>))
       \<and> (listHabitLogs_schema pq = Some iq \<and> q_habitId iq = Some (h_id b) \<longrightarrow>
           listHabitLogs pq ctx s =
             (Inl (ActionError NOT_FOUND ''Habit not found.''),
              s\<lparr>journal := journal s @ [Select Habits]\<rparr>))
       \<and> (l \<in> set (EcoHabitLogs s) \<and> l_userId l \<noteq> user_id a \<and>
           upsertHabitLog_schema newDate pe = Some ie \<and> i_id ie = Some (l_id l) \<and>
           habit_owned s (user_id a) (i_habitId ie) \<longrightarrow>
           upsertHabitLog newDate uuid now now' pe ctx s =
             (if habit_readable s (user_id a) (i_habitId ie)
              then (Inl (ActionError NOT_FOUND ''Habit log not found.''),
                    s\<lparr>journal := journal s @ [Select Habits, Select HabitLogs]\<rparr>)
              else (Inl InternalServerError,
                    s\<lparr>journal := journal s @ [Select Habits]\<rparr>)))"
proof -
  from ok have pk: "distinct (map h_id (EcoHabits s))" "distinct (map l_id (EcoHabitLogs s))"
    and ne: "h_id b \<noteq> []" "l \<in> set (EcoHabitLogs s) \<Longrightarrow> l_id l \<noteq> []"
    using b(1) by (auto simp: db_ok_def list_all_iff)
  note foreign = habit_of_other_user [OF pk(1) b]
  have 1: "updateHabit now pu ctx s =
             (Inl (ActionError NOT_FOUND ''Habit not found.''),
              s\<lparr>journal := journal s @ [Select Habits]\<rparr>)"
    if "updateHabit_schema pu = Some iu" "u_id iu = h_id b"
    using updateHabit_not_owned [OF that(1) auth] foreign that(2) by simp
  have 2: "archiveHabit now pa ctx s =
             (Inl (ActionError NOT_FOUND ''Habit not found.''),
              s\<lparr>journal := journal s @ [Select Habits]\<rparr>)"
    if "archiveHabit_schema pa = Some ia" "a_id ia = h_id b"
    using archiveHabit_not_owned [OF that(1) auth] foreign that(2) by simp
  have 3: "upsertHabitLog newDate uuid now now' pl ctx s =
             (Inl (ActionError NOT_FOUND ''Habit not found.''),
              s\<lparr>journal := journal s @ [Select Habits]\<rparr>)"
    if "upsertHabitLog_schema newDate pl = Some il" "i_habitId il = h_id b"
    using upsertHabitLog_not_owned [OF that(1) auth] foreign that(2) by simp
  have 4: "listHabitLogs pq ctx s =
             (Inl (ActionError NOT_FOUND ''Habit not found.''),
              s\<lparr>journal := journal s @ [Select Habits]\<rparr>)"
    if "listHabitLogs_schema pq = Some iq" "q_habitId iq = Some (h_id b)"
  proof -
    from that(2) ne(1) have "truthy (q_habitId iq) = Some (h_id b)"
      by (simp add: truthy_def)
    with listHabitLogs_not_owned [OF that(1) auth] foreign show ?thesis
      by simp
  qed
  have 5: "upsertHabitLog newDate uuid now now' pe ctx s =
             (if habit_readable s (user_id a) (i_habitId ie)
              then (Inl (ActionError NOT_FOUND ''Habit log not found.''),
                    s\<lparr>journal := journal s @ [Select Habits, Select HabitLogs]\<rparr>)
              else (Inl InternalServerError,
                    s\<lparr>journal := journal s @ [Select Habits]\<rparr>))"
    if "l \<in> set (EcoHabitLogs s)" "l_userId l \<noteq> user_id a"
      "upsertHabitLog_schema newDate pe = Some ie" "i_id ie = Some (l_id l)"
      "habit_owned s (user_id a) (i_habitId ie)"
  proof (cases "habit_readable s (user_id a) (i_habitId ie)")
    case True
    from that(4) ne(2) [OF that(1)] have "truthy (i_id ie) = Some (l_id l)"
      by (simp add: truthy_def)
    with upsertHabitLog_log_not_owned [OF that(3) auth that(5) True]
      log_of_other_user [OF pk(2) that(1,2)] True show ?thesis
      by simp
  next
    case False
    with upsertHabitLog_habit_unreadable [OF that(3) auth] show ?thesis
      by simp
  qed
  from 1 2 3 4 5 show ?thesis by blast
qed

lemma example_db_ok: "db_ok example_db"
  by (simp add: db_ok_def example_defs)

theorem other_users_records_not_found_witness:
  "db_ok example_db \<and> requireUser (signed_in ''alice'') = Inr \<lparr>user_id = ''alice''\<rparr>
   \<and> habit_h1 \<in> set (EcoHabits example_db) \<and> h_userId habit_h1 = ''bob''
   \<and> updateHabit 200 (JObj [(''id'', JStr ''h1''), (''category'', JStr ''water'')])
        (signed_in ''alice'') example_db
      = (Inl (ActionError NOT_FOUND ''Habit not found.''),
         example_db\<lparr>journal := [Select Habits]\<rparr>)
   \<and> listHabitLogs (JObj [(''habitId'', JStr ''h1'')]) (signed_in ''alice'') example_db
      = (Inl (ActionError NOT_FOUND ''Habit not found.''),
         example_db\<lparr>journal := [Select Habits]\<rparr>)"
proof -
  let ?p = "JObj [(''id'', JStr ''h1''), (''category'', JStr ''water'')]"
  let ?q = "JObj [(''habitId'', JStr ''h1'')]"
  have b: "habit_h1 \<in> set (EcoHabits example_db)"
    and nb: "h_userId habit_h1 \<noteq> user_id \<lparr>user_id = ''alice''\<rparr>"
    and e: "h_userId habit_h1 = ''bob''" "h_id habit_h1 = ''h1''" "journal example_db = []"
    by (simp_all add: example_defs)
  have p: "updateHabit_schema ?p =
      Some \<lparr>u_name = None, u_description = None, u_category = Some ''water'',
            u_frequency = None, u_targetPerPeriod = None, u_impactPerUnit = None,
            u_impactUnit = None, u_id = ''h1''\<rparr>"
    by (simp add: schema_defs)
  have q: "listHabitLogs_schema ?q = Some \<lparr>q_habitId = Some ''h1''\<rparr>"
    by (simp add: schema_defs)
  have 1: "updateHabit 200 ?p (signed_in ''alice'') example_db
      = (Inl (ActionError NOT_FOUND ''Habit not found.''),
         example_db\<lparr>journal := [Select Habits]\<rparr>)"
    using other_users_records_not_found [where pu = ?p and now = 200
        and iu = "\<lparr>u_name = None, u_description = None, u_category = Some ''water'',
            u_frequency = None, u_targetPerPeriod = None, u_impactPerUnit = None,
            u_impactUnit = None, u_id = ''h1''\<rparr>",
        OF example_db_ok requireUser_signed_in b nb, THEN conjunct1] p e
    by simp
  have 2: "listHabitLogs ?q (signed_in ''alice'') example_db
      = (Inl (ActionError NOT_FOUND ''Habit not found.''),
         example_db\<lparr>journal := [Select Habits]\<rparr>)"
    using other_users_records_not_found [where pq = ?q
        and iq = "\<lparr>q_habitId = Some ''h1''\<rparr>",
        OF example_db_ok requireUser_signed_in b nb,
        THEN conjunct2, THEN conjunct2, THEN conjunct2, THEN conjunct1] q e
    by simp
  from 1 2 b e example_db_ok requireUser_signed_in show ?thesis by simp
qed

text \<open>
  C2. \<^verbatim>\<open>upsertHabitLog\<close> looks the habit of the input up for the caller before it
  looks at the log \<^verbatim>\<open>id\<close>. If the caller owns no habit with the given \<^verbatim>\<open>habitId\<close>,
  the call fails with NOT_FOUND whatever the \<^verbatim>\<open>id\<close> of the input is (so on the create path
  and on the update path alike), after one select and no insert or update. Hence a
  call that succeeds, and so every change of the \<^verbatim>\<open>habitId\<close> of an existing log, was
  made with a habit that the caller owns.
\<close>

theorem upsertHabitLog_requires_owned_habit:
  assumes "upsertHabitLog_schema newDate p = Some inp" and "requireUser ctx = Inr a"
  shows "(\<not> habit_owned s (user_id a) (i_habitId inp) \<longrightarrow>
            upsertHabitLog newDate uuid now now' p ctx s =
              (Inl (ActionError NOT_FOUND ''Habit not found.''),
               s\<lparr>journal := journal s @ [Select Habits]\<rparr>))
       \<and> (fst (upsertHabitLog newDate uuid now now' p ctx s) = Inr d \<longrightarrow>
            habit_owned s (user_id a) (i_habitId inp))"
proof (intro conjI impI)
  assume "\<not> habit_owned s (user_id a) (i_habitId inp)"
  then show "upsertHabitLog newDate uuid now now' p ctx s =
      (Inl (ActionError NOT_FOUND ''Habit not found.''),
       s\<lparr>journal := journal s @ [Select Habits]\<rparr>)"
    by (rule upsertHabitLog_not_owned [OF assms])
next
  assume ok: "fst (upsertHabitLog newDate uuid now now' p ctx s) = Inr d"
  show "habit_owned s (user_id a) (i_habitId inp)"
  proof (rule ccontr)
    assume "\<not> habit_owned s (user_id a) (i_habitId inp)"
    from upsertHabitLog_not_owned [OF assms this] ok show False
      by simp
  qed
qed

lemma upsert_example_input:
  "upsertHabitLog_schema date_values (JObj [(''id'', JStr i), (''habitId'', JStr h)]) =
     Some \<lparr>i_id = Some i, i_habitId = h, i_logDate = None, i_quantity = None, i_notes = None\<rparr>"
  by (simp add: schema_defs)

theorem upsertHabitLog_requires_owned_habit_witness:
  "upsertHabitLog_schema date_values (JObj [(''id'', JStr ''l2''), (''habitId'', JStr ''h1'')]) =
     Some \<lparr>i_id = Some ''l2'', i_habitId = ''h1'', i_logDate = None, i_quantity = None,
           i_notes = None\<rparr>
   \<and> requireUser (signed_in ''alice'') = Inr \<lparr>user_id = ''alice''\<rparr>
   \<and> \<not> habit_owned example_db ''alice'' ''h1''
   \<and> upsertHabitLog date_values ''l9'' 300 301
        (JObj [(''id'', JStr ''l2''), (''habitId'', JStr ''h1'')]) (signed_in ''alice'') example_db
      = (Inl (ActionError NOT_FOUND ''Habit not found.''),
         example_db\<lparr>journal := [Select Habits]\<rparr>)"
proof -
  have n: "\<not> habit_owned example_db ''alice'' ''h1''" and j: "journal example_db = []"
    by (simp_all add: habit_owned_def example_defs)
  from upsertHabitLog_requires_owned_habit [where s = example_db and uuid = "''l9''"
      and now = 300 and now' = 301, OF upsert_example_input requireUser_signed_in,
      THEN conjunct1] n j
  have "upsertHabitLog date_values ''l9'' 300 301
        (JObj [(''id'', JStr ''l2''), (''habitId'', JStr ''h1'')]) (signed_in ''alice'') example_db
      = (Inl (ActionError NOT_FOUND ''Habit not found.''),
         example_db\<lparr>journal := [Select Habits]\<rparr>)"
    by simp
  with n upsert_example_input requireUser_signed_in show ?thesis
    by simp
qed

subsection \<open>The two paths of \<^verbatim>\<open>upsertHabitLog\<close>\<close>

lemma select_log_owned:
  assumes "log_owned s u i" and "log_readable s u i"
  shows "\<exists>e rs. select_EcoHabitLogs (\<lambda>r. l_id r = i \<and> l_userId r = u) s =
            (Inr (read_EcoHabitLog e # rs), s\<lparr>journal := journal s @ [Select HabitLogs]\<rparr>)
          \<and> e \<in> set (EcoHabitLogs s) \<and> l_id e = i \<and> l_userId e = u"
proof (cases "filter (\<lambda>r. l_id r = i \<and> l_userId r = u) (EcoHabitLogs s)")
  case Nil
  with assms(1) show ?thesis
    by (auto simp: log_owned_iff filter_empty_conv)
next
  case (Cons e rs)
  from filter_eq_ConsD [OF Cons]
  have "e \<in> set (EcoHabitLogs s) \<and> l_id e = i \<and> l_userId e = u"
    by auto
  with Cons assms(2) show ?thesis
    by (auto simp: select_EcoHabitLogs_def log_readable_def)
qed

lemma read_EcoHabitLog_logDate: "l_logDate (read_EcoHabitLog e) = l_logDate e"
  by (simp add: read_EcoHabitLog_def)

lemma select_log_unreadable:
  "\<not> log_readable s u i \<Longrightarrow>
   select_EcoHabitLogs (\<lambda>r. l_id r = i \<and> l_userId r = u) s =
     (Inl InternalServerError, s\<lparr>journal := journal s @ [Select HabitLogs]\<rparr>)"
  by (simp add: select_EcoHabitLogs_def log_readable_def)

lemma readable_journal:
  "log_owned (s\<lparr>journal := j\<rparr>) u i = log_owned s u i"
  "log_readable (s\<lparr>journal := j\<rparr>) u i = log_readable s u i"
  by (simp_all add: log_owned_def log_readable_def)

text \<open>The update path of \<^verbatim>\<open>upsertHabitLog\<close>, in full.\<close>

lemma upsertHabitLog_update_path:
  assumes inp: "upsertHabitLog_schema newDate p = Some inp" and auth: "requireUser ctx = Inr a"
    and own: "habit_owned s (user_id a) (i_habitId inp)"
    and rd: "habit_readable s (user_id a) (i_habitId inp)"
    and tr: "truthy (i_id inp) = Some i"
    and lg: "log_owned s (user_id a) i"
  shows "\<exists>e. e \<in> set (EcoHabitLogs s) \<and> l_id e = i \<and> l_userId e = user_id a \<and>
           upsertHabitLog newDate uuid now now' p ctx s =
             (if \<not> log_readable s (user_id a) i
              then (Inl InternalServerError,
                    s\<lparr>journal := journal s @ [Select Habits, Select HabitLogs]\<rparr>)
              else if \<not> bindable (i_quantity inp)
              then (Inl InternalServerError,
                    s\<lparr>journal :=
                         journal s @ [Select Habits, Select HabitLogs, Update HabitLogs]\<rparr>)
              else
               (Inr \<lparr>logId = i, mode = updated\<rparr>,
                s\<lparr>EcoHabitLogs :=
                     map (\<lambda>r. if l_id r = i \<and> l_userId r = user_id a
                               then apply_EcoHabitLog_set
                                      \<lparr>set_habitId = Some (i_habitId inp),
                                       set_logDate =
                                         Some (case i_logDate inp of
                                                 None \<Rightarrow> l_logDate e
                                               | Some d \<Rightarrow> d),
                                       set_quantity = i_quantity inp,
                                       set_notes = i_notes inp\<rparr> r
                               else r) (EcoHabitLogs s),
                   journal :=
                     journal s @ [Select Habits, Select HabitLogs, Update HabitLogs]\<rparr>))"
proof -
  let ?s1 = "s\<lparr>journal := journal s @ [Select Habits]\<rparr>"
  from getHabitForUser_owned [OF own rd] obtain r where
    r: "getHabitForUser (i_habitId inp) (user_id a) s = (Inr (Some r), ?s1)"
    by blast
  from lg obtain e0 where e0: "e0 \<in> set (EcoHabitLogs s)" "l_id e0 = i" "l_userId e0 = user_id a"
    by (auto simp: log_owned_iff)
  show ?thesis
  proof (cases "log_readable s (user_id a) i")
    case False
    then have "\<not> log_readable ?s1 (user_id a) i"
      by (simp add: readable_journal)
    from select_log_unreadable [OF this] inp auth tr r False e0 show ?thesis
      by (auto simp: upsertHabitLog_def defineAction_def upsertHabitLog_handler_def)
  next
    case True
    then have "log_owned ?s1 (user_id a) i" "log_readable ?s1 (user_id a) i"
      using lg by (simp_all add: readable_journal)
    from select_log_owned [OF this] obtain e rs where
      e: "select_EcoHabitLogs (\<lambda>r. l_id r = i \<and> l_userId r = user_id a) ?s1 =
            (Inr (read_EcoHabitLog e # rs), ?s1\<lparr>journal := journal ?s1 @ [Select HabitLogs]\<rparr>)"
        "e \<in> set (EcoHabitLogs s)" "l_id e = i" "l_userId e = user_id a"
      by auto
    have "upsertHabitLog newDate uuid now now' p ctx s =
             (if \<not> bindable (i_quantity inp)
              then (Inl InternalServerError,
                    s\<lparr>journal :=
                         journal s @ [Select Habits, Select HabitLogs, Update HabitLogs]\<rparr>)
              else
               (Inr \<lparr>logId = i, mode = updated\<rparr>,
                s\<lparr>EcoHabitLogs :=
                     map (\<lambda>r. if l_id r = i \<and> l_userId r = user_id a
                               then apply_EcoHabitLog_set
                                      \<lparr>set_habitId = Some (i_habitId inp),
                                       set_logDate =
                                         Some (case i_logDate inp of
                                                 None \<Rightarrow> l_logDate e
                                               | Some d \<Rightarrow> d),
                                       set_quantity = i_quantity inp,
                                       set_notes = i_notes inp\<rparr> r
                               else r) (EcoHabitLogs s),
                   journal :=
                     journal s @ [Select Habits, Select HabitLogs, Update HabitLogs]\<rparr>))"
      using inp auth tr r e(1)
      by (simp add: upsertHabitLog_def defineAction_def upsertHabitLog_handler_def
          update_EcoHabitLogs_def read_EcoHabitLog_logDate Let_def
          cong: option.case_cong if_cong)
    with e(2-4) True show ?thesis by auto
  qed
qed

text \<open>The create path of \<^verbatim>\<open>upsertHabitLog\<close>, in full.\<close>

lemma upsertHabitLog_create_path:
  assumes inp: "upsertHabitLog_schema newDate p = Some inp" and auth: "requireUser ctx = Inr a"
    and own: "habit_owned s (user_id a) (i_habitId inp)"
    and rd: "habit_readable s (user_id a) (i_habitId inp)"
    and tr: "truthy (i_id inp) = None"
  shows "upsertHabitLog newDate uuid now now' p ctx s =
           (if \<not> bindable (i_quantity inp) \<or> uuid \<in> set (map l_id (EcoHabitLogs s))
            then (Inl InternalServerError,
                  s\<lparr>journal := journal s @ [Select Habits, Insert HabitLogs]\<rparr>)
            else (Inr \<lparr>logId = uuid, mode = created\<rparr>,
                  s\<lparr>EcoHabitLogs := EcoHabitLogs s @
                       [\<lparr>l_id = uuid, l_habitId = i_habitId inp, l_userId = user_id a,
                         l_logDate = (case i_logDate inp of None \<Rightarrow> now | Some d \<Rightarrow> d),
                         l_quantity = i_quantity inp, l_notes = i_notes inp,
                         l_createdAt = now'\<rparr>],
                     journal := journal s @ [Select Habits, Insert HabitLogs]\<rparr>))"
proof -
  from getHabitForUser_owned [OF own rd] obtain r where
    "getHabitForUser (i_habitId inp) (user_id a) s =
       (Inr (Some r), s\<lparr>journal := journal s @ [Select Habits]\<rparr>)"
    by blast
  then show ?thesis
    using inp auth tr
    by (simp add: upsertHabitLog_def defineAction_def upsertHabitLog_handler_def
        insert_EcoHabitLogs_def Let_def)
qed

text \<open>
  C4, as the code has it. Take a signed-in caller who owns the habit of the input, and
  let the select of that habit succeed. \<^verbatim>\<open>upsertHabitLog\<close> then branches on the truth
  value of the log \<^verbatim>\<open>id\<close> and on nothing else of the input. An \<^verbatim>\<open>id\<close> that is missing or
  the empty string selects the create path: when the generated id is not in the table
  yet and the quantity, if there is one, is finite, a log is appended under that id and
  the mode is \<^verbatim>\<open>created\<close>. A non-empty \<^verbatim>\<open>id\<close> selects the update path: when the caller
  owns a log with that id, that log can be read back, and the quantity, if there is one,
  is finite, the mode is \<^verbatim>\<open>updated\<close> and no log is added; when the caller owns no log
  with that id, the call fails with NOT_FOUND after two selects.
\<close>

theorem upsertHabitLog_branches_on_truthy_id:
  assumes inp: "upsertHabitLog_schema newDate p = Some inp" and auth: "requireUser ctx = Inr a"
    and own: "habit_owned s (user_id a) (i_habitId inp)"
    and rd: "habit_readable s (user_id a) (i_habitId inp)"
  shows "(truthy (i_id inp) = None \<and> uuid \<notin> set (map l_id (EcoHabitLogs s)) \<and>
          bindable (i_quantity inp) \<longrightarrow>
            fst (upsertHabitLog newDate uuid now now' p ctx s) = Inr \<lparr>logId = uuid, mode = created\<rparr>
          \<and> map l_id (EcoHabitLogs (snd (upsertHabitLog newDate uuid now now' p ctx s))) =
              map l_id (EcoHabitLogs s) @ [uuid])
       \<and> (truthy (i_id inp) = Some i \<and> log_owned s (user_id a) i \<and>
          log_readable s (user_id a) i \<and> bindable (i_quantity inp) \<longrightarrow>
            fst (upsertHabitLog newDate uuid now now' p ctx s) = Inr \<lparr>logId = i, mode = updated\<rparr>
          \<and> map l_id (EcoHabitLogs (snd (upsertHabitLog newDate uuid now now' p ctx s))) =
              map l_id (EcoHabitLogs s))
       \<and> (truthy (i_id inp) = Some i \<and> \<not> log_owned s (user_id a) i \<longrightarrow>
            upsertHabitLog newDate uuid now now' p ctx s =
              (Inl (ActionError NOT_FOUND ''Habit log not found.''),
               s\<lparr>journal := journal s @ [Select Habits, Select HabitLogs]\<rparr>))"
proof (intro conjI impI)
  assume "truthy (i_id inp) = None \<and> uuid \<notin> set (map l_id (EcoHabitLogs s)) \<and>
      bindable (i_quantity inp)"
  then have c: "upsertHabitLog newDate uuid now now' p ctx s =
      (Inr \<lparr>logId = uuid, mode = created\<rparr>,
       s\<lparr>EcoHabitLogs := EcoHabitLogs s @
             [\<lparr>l_id = uuid, l_habitId = i_habitId inp, l_userId = user_id a,
               l_logDate = (case i_logDate inp of None \<Rightarrow> now | Some d \<Rightarrow> d),
               l_quantity = i_quantity inp, l_notes = i_notes inp, l_createdAt = now'\<rparr>],
          journal := journal s @ [Select Habits, Insert HabitLogs]\<rparr>)"
    using upsertHabitLog_create_path [OF inp auth own rd, of uuid now now'] by simp
  show "fst (upsertHabitLog newDate uuid now now' p ctx s) = Inr \<lparr>logId = uuid, mode = created\<rparr>"
    by (simp add: c)
  show "map l_id (EcoHabitLogs (snd (upsertHabitLog newDate uuid now now' p ctx s))) =
      map l_id (EcoHabitLogs s) @ [uuid]"
    by (simp add: c)
next
  assume "truthy (i_id inp) = Some i \<and> log_owned s (user_id a) i \<and>
      log_readable s (user_id a) i \<and> bindable (i_quantity inp)"
  then have tr: "truthy (i_id inp) = Some i" and lg: "log_owned s (user_id a) i"
    and rest: "log_readable s (user_id a) i" "bindable (i_quantity inp)"
    by simp_all
  from upsertHabitLog_update_path [OF inp auth own rd tr lg, of uuid now now'] rest
  obtain s' where u: "upsertHabitLog newDate uuid now now' p ctx s =
      (Inr \<lparr>logId = i, mode = updated\<rparr>, s')"
    and ids: "map l_id (EcoHabitLogs s') = map l_id (EcoHabitLogs s)"
    by (auto simp: apply_EcoHabitLog_set_def comp_def cong: if_cong)
  show "fst (upsertHabitLog newDate uuid now now' p ctx s) = Inr \<lparr>logId = i, mode = updated\<rparr>"
    by (simp add: u)
  show "map l_id (EcoHabitLogs (snd (upsertHabitLog newDate uuid now now' p ctx s))) =
      map l_id (EcoHabitLogs s)"
    by (simp add: u ids)
next
  assume "truthy (i_id inp) = Some i \<and> \<not> log_owned s (user_id a) i"
  then show "upsertHabitLog newDate uuid now now' p ctx s =
      (Inl (ActionError NOT_FOUND ''Habit log not found.''),
       s\<lparr>journal := journal s @ [Select Habits, Select HabitLogs]\<rparr>)"
    using upsertHabitLog_log_not_owned [OF inp auth own rd] by simp
qed

theorem upsertHabitLog_branches_on_truthy_id_witness:
  "upsertHabitLog_schema date_values (JObj [(''id'', JStr ''l2''), (''habitId'', JStr ''h2'')]) =
     Some \<lparr>i_id = Some ''l2'', i_habitId = ''h2'', i_logDate = None, i_quantity = None,
           i_notes = None\<rparr>
   \<and> requireUser (signed_in ''alice'') = Inr \<lparr>user_id = ''alice''\<rparr>
   \<and> habit_owned example_db ''alice'' ''h2'' \<and> habit_readable example_db ''alice'' ''h2''
   \<and> log_owned example_db ''alice'' ''l2'' \<and> log_readable example_db ''alice'' ''l2''
   \<and> bindable None
   \<and> fst (upsertHabitLog date_values ''l9'' 300 301
        (JObj [(''id'', JStr ''l2''), (''habitId'', JStr ''h2'')]) (signed_in ''alice'') example_db)
      = Inr \<lparr>logId = ''l2'', mode = updated\<rparr>"
proof -
  let ?inp = "\<lparr>i_id = Some ''l2'', i_habitId = ''h2'', i_logDate = None, i_quantity = None,
           i_notes = None\<rparr>"
  have o: "habit_owned example_db (user_id \<lparr>user_id = ''alice''\<rparr>) (i_habitId ?inp)"
    and r: "habit_readable example_db (user_id \<lparr>user_id = ''alice''\<rparr>) (i_habitId ?inp)"
    and l: "log_owned example_db ''alice'' ''l2''"
    and lr: "log_readable example_db ''alice'' ''l2''"
    and t: "truthy (Some ''l2'') = Some ''l2''"
    and b: "bindable None"
    by (simp_all add: habit_owned_def log_owned_def habit_readable_def log_readable_def
        truthy_def example_defs db_defs)
  from upsertHabitLog_branches_on_truthy_id [where s = example_db and uuid = "''l9''"
      and now = 300 and now' = 301 and i = "''l2''",
      OF upsert_example_input requireUser_signed_in o r, THEN conjunct2, THEN conjunct1]
    l lr t b
  have "fst (upsertHabitLog date_values ''l9'' 300 301
        (JObj [(''id'', JStr ''l2''), (''habitId'', JStr ''h2'')]) (signed_in ''alice'') example_db)
      = Inr \<lparr>logId = ''l2'', mode = updated\<rparr>"
    by simp
  with o r l lr b upsert_example_input requireUser_signed_in show ?thesis
    by simp
qed

text \<open>
  The claim as it is written fails when \<^verbatim>\<open>id\<close> is present and empty: the caller owns no
  log with that id, yet the call neither updates nor fails with NOT_FOUND; it creates
  the log \<^verbatim>\<open>l9\<close>.
\<close>

theorem upsertHabitLog_empty_id_counterexample:
  "upsertHabitLog_schema date_values
      (JObj [(''id'', JStr ''''), (''habitId'', JStr ''h2''), (''quantity'', JNum (Num 2))]) =
     Some \<lparr>i_id = Some '''', i_habitId = ''h2'', i_logDate = None, i_quantity = Some (Num 2),
           i_notes = None\<rparr>
   \<and> fst (upsertHabitLog date_values ''l9'' 300 301
        (JObj [(''id'', JStr ''''), (''habitId'', JStr ''h2''), (''quantity'', JNum (Num 2))])
        (signed_in ''alice'') example_db) = Inr \<lparr>logId = ''l9'', mode = created\<rparr>
   \<and> map l_id (EcoHabitLogs (snd (upsertHabitLog date_values ''l9'' 300 301
        (JObj [(''id'', JStr ''''), (''habitId'', JStr ''h2''), (''quantity'', JNum (Num 2))])
        (signed_in ''alice'') example_db))) = [''l1'', ''l2'', ''l9'']"
  by (simp add: action_defs handler_defs schema_defs db_defs example_defs)

text \<open>
  C7: the code does not do what the claim says. The update path passes \<^verbatim>\<open>quantity\<close> and
  \<^verbatim>\<open>notes\<close> of the input to the \<^verbatim>\<open>set\<close> object as they are, with no fallback, whereas
  \<^verbatim>\<open>logDate\<close> has one. When the input omits them they are \<^verbatim>\<open>undefined\<close> there, and the
  update statement skips them: the log \<^verbatim>\<open>l2\<close> has quantity 5 and a note, the update
  names neither, and both are still there afterwards.
\<close>

theorem upsertHabitLog_omitted_quantity_kept:
  "l_quantity log_l2 = Some (Num 5) \<and> l_notes log_l2 = Some ''two refills''
   \<and> upsertHabitLog date_values ''l9'' 300 301
        (JObj [(''id'', JStr ''l2''), (''habitId'', JStr ''h2'')]) (signed_in ''alice'') example_db
      = (Inr \<lparr>logId = ''l2'', mode = updated\<rparr>,
         example_db\<lparr>journal := [Select Habits, Select HabitLogs, Update HabitLogs]\<rparr>)
   \<and> map l_quantity (EcoHabitLogs (snd (upsertHabitLog date_values ''l9'' 300 301
        (JObj [(''id'', JStr ''l2''), (''habitId'', JStr ''h2'')]) (signed_in ''alice'')
        example_db))) = [Some (Num 1), Some (Num 5)]
   \<and> map l_notes (EcoHabitLogs (snd (upsertHabitLog date_values ''l9'' 300 301
        (JObj [(''id'', JStr ''l2''), (''habitId'', JStr ''h2'')]) (signed_in ''alice'')
        example_db))) = [None, Some ''two refills'']"
  by (simp add: action_defs handler_defs schema_defs db_defs example_defs)

subsection \<open>Updating a habit\<close>

lemma updateHabit_habit_unreadable:
  assumes "updateHabit_schema p = Some inp" and "requireUser ctx = Inr a"
    and "\<not> habit_readable s (user_id a) (u_id inp)"
  shows "updateHabit now p ctx s =
           (Inl InternalServerError, s\<lparr>journal := journal s @ [Select Habits]\<rparr>)"
  using assms
  by (simp add: updateHabit_def defineAction_def updateHabit_handler_def
      getHabitForUser_unreadable)

lemma updateHabit_owned:
  assumes inp: "updateHabit_schema p = Some inp" and auth: "requireUser ctx = Inr a"
    and own: "habit_owned s (user_id a) (u_id inp)"
    and rd: "habit_readable s (user_id a) (u_id inp)"
  shows "updateHabit now p ctx s =
           (if \<not> (bindable (u_targetPerPeriod inp) \<and> bindable (u_impactPerUnit inp))
            then (Inl InternalServerError,
                  s\<lparr>journal := journal s @ [Select Habits, Update Habits]\<rparr>)
            else
             (Inr \<lparr>habitId = u_id inp\<rparr>,
              s\<lparr>EcoHabits :=
                   map (\<lambda>r. if h_id r = u_id inp \<and> h_userId r = user_id a
                             then apply_EcoHabit_set
                                    \<lparr>set_name = u_name inp,
                                     set_description = u_description inp,
                                     set_category = u_category inp,
                                     set_frequency = u_frequency inp,
                                     set_targetPerPeriod = u_targetPerPeriod inp,
                                     set_impactPerUnit = u_impactPerUnit inp,
                                     set_impactUnit = u_impactUnit inp,
                                     set_isActive = None, set_updatedAt = Some now\<rparr> r
                             else r) (EcoHabits s),
                 journal := journal s @ [Select Habits, Update Habits]\<rparr>))"
proof -
  from getHabitForUser_owned [OF own rd] obtain r where
    "getHabitForUser (u_id inp) (user_id a) s =
       (Inr (Some r), s\<lparr>journal := journal s @ [Select Habits]\<rparr>)"
    by blast
  then show ?thesis
    using inp auth
    by (simp add: updateHabit_def defineAction_def updateHabit_handler_def
        update_EcoHabits_def Let_def)
qed

text \<open>
  When the select of the habit succeeds and the numbers of the input are finite,
  \<^verbatim>\<open>updateHabit\<close> succeeds and touches only what the input defines: in the
  habits table every row of the caller with the given id takes, for each of the seven
  fields, the value of the input if the input defines one and keeps its value otherwise;
  \<^verbatim>\<open>updatedAt\<close> becomes the clock reading; \<^verbatim>\<open>id\<close>, \<^verbatim>\<open>userId\<close>, \<^verbatim>\<open>isActive\<close> and
  \<^verbatim>\<open>createdAt\<close> keep their values. Every other row stays as it was, and so does the
  table of logs.
\<close>

lemma updateHabit_frame:
  assumes inp: "updateHabit_schema p = Some inp" and auth: "requireUser ctx = Inr a"
    and own: "habit_owned s (user_id a) (u_id inp)"
    and rd: "habit_readable s (user_id a) (u_id inp)"
    and fin: "bindable (u_targetPerPeriod inp)" "bindable (u_impactPerUnit inp)"
  shows "fst (updateHabit now p ctx s) = Inr \<lparr>habitId = u_id inp\<rparr>
       \<and> list_all2
           (\<lambda>old new.
              if h_id old = u_id inp \<and> h_userId old = user_id a
              then h_name new = (case u_name inp of None \<Rightarrow> h_name old | Some v \<Rightarrow> v)
                 \<and> h_description new =
                     (case u_description inp of None \<Rightarrow> h_description old | Some v \<Rightarrow> Some v)
                 \<and> h_category new =
                     (case u_category inp of None \<Rightarrow> h_category old | Some v \<Rightarrow> Some v)
                 \<and> h_frequency new =
                     (case u_frequency inp of None \<Rightarrow> h_frequency old | Some v \<Rightarrow> Some v)
                 \<and> h_targetPerPeriod new =
                     (case u_targetPerPeriod inp of
                        None \<Rightarrow> h_targetPerPeriod old | Some v \<Rightarrow> Some v)
                 \<and> h_impactPerUnit new =
                     (case u_impactPerUnit inp of None \<Rightarrow> h_impactPerUnit old | Some v \<Rightarrow> Some v)
                 \<and> h_impactUnit new =
                     (case u_impactUnit inp of None \<Rightarrow> h_impactUnit old | Some v \<Rightarrow> Some v)
                 \<and> h_updatedAt new = now
                 \<and> h_id new = h_id old \<and> h_userId new = h_userId old
                 \<and> h_isActive new = h_isActive old \<and> h_createdAt new = h_createdAt old
              else new = old)
           (EcoHabits s) (EcoHabits (snd (updateHabit now p ctx s)))
       \<and> EcoHabitLogs (snd (updateHabit now p ctx s)) = EcoHabitLogs s"
  unfolding updateHabit_owned [OF inp auth own rd]
  using fin
  by (auto simp: list_all2_map2 list_all2_same apply_EcoHabit_set_def assign_def
      assign_nullable_def split: option.splits)

lemma after_big_target:
  "after_big_target =
     example_db\<lparr>EcoHabits := [habit_h1, habit_h2, habit_h3], journal := [Insert Habits]\<rparr>"
  by (simp add: after_big_target_def action_defs handler_defs schema_defs db_defs example_defs)

text \<open>
  C6: the code does not do what the claim says on every habit of the caller. The schema
  of \<^verbatim>\<open>createHabit\<close> accepts the target \<^verbatim>\<open>2^53\<close>, and the habit \<^verbatim>\<open>h3\<close> is stored with
  it. From then on the select of \<^verbatim>\<open>getHabitForUser\<close> throws on that row: alice updates
  the category of her habit \<^verbatim>\<open>h3\<close>, the call fails after that one select, and the row
  keeps its category and its \<^verbatim>\<open>updatedAt\<close>. Likewise the schema of \<^verbatim>\<open>updateHabit\<close>
  accepts \<^verbatim>\<open>Infinity\<close> for \<^verbatim>\<open>impactPerUnit\<close>, the update statement throws on it, and
  her habit \<^verbatim>\<open>h2\<close> stays as it was.
\<close>

theorem updateHabit_fails_on_owned_habit:
  "habitFieldsSchema big_target \<noteq> None
   \<and> EcoHabits after_big_target = [habit_h1, habit_h2, habit_h3]
   \<and> habit_owned after_big_target ''alice'' ''h3''
   \<and> updateHabit_schema (JObj [(''id'', JStr ''h3''), (''category'', JStr ''water'')]) \<noteq> None
   \<and> updateHabit 400 (JObj [(''id'', JStr ''h3''), (''category'', JStr ''water'')])
        (signed_in ''alice'') after_big_target
      = (Inl InternalServerError,
         after_big_target\<lparr>journal := [Insert Habits, Select Habits]\<rparr>)
   \<and> habit_owned example_db ''alice'' ''h2''
   \<and> updateHabit_schema (JObj [(''id'', JStr ''h2''), (''impactPerUnit'', JNum PlusInfinity)])
      \<noteq> None
   \<and> updateHabit 400 (JObj [(''id'', JStr ''h2''), (''impactPerUnit'', JNum PlusInfinity)])
        (signed_in ''alice'') example_db
      = (Inl InternalServerError, example_db\<lparr>journal := [Select Habits, Update Habits]\<rparr>)"
  unfolding after_big_target
  by (simp add: action_defs handler_defs schema_defs db_defs example_defs habit_owned_def)

subsection \<open>Listing logs\<close>

lemma read_as_stored_rows:
  assumes "list_all read_as_stored rows"
  shows "\<not> list_ex unreadable_EcoHabitLog rows" and "map read_EcoHabitLog rows = rows"
  using assms by (induction rows) (simp_all add: read_as_stored_def)

lemma select_logs_as_stored:
  assumes "list_all read_as_stored (filter c (EcoHabitLogs s))"
  shows "select_EcoHabitLogs c s =
           (Inr (filter c (EcoHabitLogs s)), s\<lparr>journal := journal s @ [Select HabitLogs]\<rparr>)"
  using read_as_stored_rows [OF assms]
  by (simp add: select_EcoHabitLogs_def)

text \<open>
  C8, as the code has it. For a signed-in caller \<^verbatim>\<open>listHabitLogs\<close> tests the truth value
  of \<^verbatim>\<open>habitId\<close>. A non-empty \<^verbatim>\<open>habitId\<close> that names no habit of the caller fails with
  NOT_FOUND. One that names a habit of the caller returns the logs of the caller with
  that \<^verbatim>\<open>habitId\<close>, in table order, and their number, provided that the select of the
  habit succeeds and that these logs are read back as they are stored. A \<^verbatim>\<open>habitId\<close>
  that is missing or the empty string returns all the logs of the caller, with no look
  at the habits, provided that these logs are read back as they are stored.
\<close>

theorem listHabitLogs_filters_on_truthy_habitId:
  assumes inp: "listHabitLogs_schema p = Some inp" and auth: "requireUser ctx = Inr a"
  shows "(truthy (q_habitId inp) = Some h \<and> \<not> habit_owned s (user_id a) h \<longrightarrow>
            listHabitLogs p ctx s =
              (Inl (ActionError NOT_FOUND ''Habit not found.''),
               s\<lparr>journal := journal s @ [Select Habits]\<rparr>))
       \<and> (truthy (q_habitId inp) = Some h \<and> habit_owned s (user_id a) h \<and>
          habit_readable s (user_id a) h \<and>
          list_all read_as_stored
            (filter (\<lambda>l. l_userId l = user_id a \<and> l_habitId l = h) (EcoHabitLogs s)) \<longrightarrow>
            listHabitLogs p ctx s =
              (Inr \<lparr>items = filter (\<lambda>l. l_userId l = user_id a \<and> l_habitId l = h)
                               (EcoHabitLogs s),
                    total = length (filter (\<lambda>l. l_userId l = user_id a \<and> l_habitId l = h)
                               (EcoHabitLogs s))\<rparr>,
               s\<lparr>journal := journal s @ [Select Habits, Select HabitLogs]\<rparr>))
       \<and> (truthy (q_habitId inp) = None \<and>
          list_all read_as_stored (filter (\<lambda>l. l_userId l = user_id a) (EcoHabitLogs s)) \<longrightarrow>
            listHabitLogs p ctx s =
              (Inr \<lparr>items = filter (\<lambda>l. l_userId l = user_id a) (EcoHabitLogs s),
                    total = length (filter (\<lambda>l. l_userId l = user_id a) (EcoHabitLogs s))\<rparr>,
               s\<lparr>journal := journal s @ [Select HabitLogs]\<rparr>))"
proof (intro conjI impI)
  assume "truthy (q_habitId inp) = Some h \<and> \<not> habit_owned s (user_id a) h"
  then show "listHabitLogs p ctx s =
      (Inl (ActionError NOT_FOUND ''Habit not found.''),
       s\<lparr>journal := journal s @ [Select Habits]\<rparr>)"
    using listHabitLogs_not_owned [OF inp auth] by simp
next
  let ?s1 = "s\<lparr>journal := journal s @ [Select Habits]\<rparr>"
  assume "truthy (q_habitId inp) = Some h \<and> habit_owned s (user_id a) h \<and>
      habit_readable s (user_id a) h \<and>
      list_all read_as_stored
        (filter (\<lambda>l. l_userId l = user_id a \<and> l_habitId l = h) (EcoHabitLogs s))"
  then have tr: "truthy (q_habitId inp) = Some h" and own: "habit_owned s (user_id a) h"
    and rd: "habit_readable s (user_id a) h"
    and st: "list_all read_as_stored
        (filter (\<lambda>l. l_userId l = user_id a \<and> l_habitId l = h) (EcoHabitLogs ?s1))"
    by simp_all
  from getHabitForUser_owned [OF own rd] obtain r where
    "getHabitForUser h (user_id a) s = (Inr (Some r), ?s1)"
    by blast
  then show "listHabitLogs p ctx s =
      (Inr \<lparr>items = filter (\<lambda>l. l_userId l = user_id a \<and> l_habitId l = h) (EcoHabitLogs s),
            total = length (filter (\<lambda>l. l_userId l = user_id a \<and> l_habitId l = h)
                       (EcoHabitLogs s))\<rparr>,
       s\<lparr>journal := journal s @ [Select Habits, Select HabitLogs]\<rparr>)"
    using inp auth tr select_logs_as_stored [OF st]
    by (simp add: listHabitLogs_def defineAction_def listHabitLogs_handler_def Let_def)
next
  assume "truthy (q_habitId inp) = None \<and>
      list_all read_as_stored (filter (\<lambda>l. l_userId l = user_id a) (EcoHabitLogs s))"
  then have tr: "truthy (q_habitId inp) = None"
    and st: "list_all read_as_stored (filter (\<lambda>l. l_userId l = user_id a) (EcoHabitLogs s))"
    by simp_all
  show "listHabitLogs p ctx s =
      (Inr \<lparr>items = filter (\<lambda>l. l_userId l = user_id a) (EcoHabitLogs s),
            total = length (filter (\<lambda>l. l_userId l = user_id a) (EcoHabitLogs s))\<rparr>,
       s\<lparr>journal := journal s @ [Select HabitLogs]\<rparr>)"
    using inp auth tr select_logs_as_stored [OF st]
    by (simp add: listHabitLogs_def defineAction_def listHabitLogs_handler_def Let_def)
qed

theorem listHabitLogs_filters_on_truthy_habitId_witness:
  "listHabitLogs_schema (JObj [(''habitId'', JStr ''h2'')]) = Some \<lparr>q_habitId = Some ''h2''\<rparr>
   \<and> requireUser (signed_in ''alice'') = Inr \<lparr>user_id = ''alice''\<rparr>
   \<and> habit_owned example_db ''alice'' ''h2'' \<and> habit_readable example_db ''alice'' ''h2''
   \<and> list_all read_as_stored
        (filter (\<lambda>l. l_userId l = ''alice'' \<and> l_habitId l = ''h2'') (EcoHabitLogs example_db))
   \<and> listHabitLogs (JObj [(''habitId'', JStr ''h2'')]) (signed_in ''alice'') example_db =
       (Inr \<lparr>items = [log_l2], total = 1\<rparr>,
        example_db\<lparr>journal := [Select Habits, Select HabitLogs]\<rparr>)"
proof -
  have q: "listHabitLogs_schema (JObj [(''habitId'', JStr ''h2'')]) =
      Some \<lparr>q_habitId = Some ''h2''\<rparr>"
    by (simp add: schema_defs)
  have o: "habit_owned example_db ''alice'' ''h2''"
    and r: "habit_readable example_db ''alice'' ''h2''"
    and t: "truthy (q_habitId \<lparr>q_habitId = Some ''h2''\<rparr>) = Some ''h2''"
    and f: "filter (\<lambda>l. l_userId l = ''alice'' \<and> l_habitId l = ''h2'') (EcoHabitLogs example_db)
        = [log_l2]"
    and j: "journal example_db = []"
    by (simp_all add: habit_owned_def habit_readable_def truthy_def example_defs db_defs)
  have st: "list_all read_as_stored [log_l2]"
    by (simp add: read_as_stored_def example_defs db_defs)
  from listHabitLogs_filters_on_truthy_habitId [where s = example_db and h = "''h2''",
      OF q requireUser_signed_in, THEN conjunct2, THEN conjunct1] o r t f j st
  have "listHabitLogs (JObj [(''habitId'', JStr ''h2'')]) (signed_in ''alice'') example_db =
       (Inr \<lparr>items = [log_l2], total = 1\<rparr>,
        example_db\<lparr>journal := [Select Habits, Select HabitLogs]\<rparr>)"
    by simp
  with q o r f st requireUser_signed_in show ?thesis
    by simp
qed

text \<open>
  The claim as it is written fails when \<^verbatim>\<open>habitId\<close> is present and empty: the caller owns
  no habit with that id, yet the call does not fail with NOT_FOUND; it returns the log
  \<^verbatim>\<open>l2\<close> of the caller, whose \<^verbatim>\<open>habitId\<close> is not the one asked for.
\<close>

theorem listHabitLogs_empty_habitId_counterexample:
  "listHabitLogs_schema (JObj [(''habitId'', JStr '''')]) = Some \<lparr>q_habitId = Some ''''\<rparr>
   \<and> \<not> habit_owned example_db ''alice'' ''''
   \<and> listHabitLogs (JObj [(''habitId'', JStr '''')]) (signed_in ''alice'') example_db =
       (Inr \<lparr>items = [log_l2], total = 1\<rparr>, example_db\<lparr>journal := [Select HabitLogs]\<rparr>)
   \<and> l_habitId log_l2 = ''h2''"
  by (simp add: action_defs handler_defs schema_defs db_defs example_defs habit_owned_def)

subsection \<open>Where the logs come from\<close>

lemma upsertHabitLog_invalid:
  "upsertHabitLog_schema newDate p = None \<Longrightarrow>
   upsertHabitLog newDate uuid now now' p ctx s = (Inl ActionInputError, s)"
  by (simp add: upsertHabitLog_def defineAction_def)

lemma upsertHabitLog_signed_out:
  "upsertHabitLog_schema newDate p = Some inp \<Longrightarrow> requireUser ctx = Inl e \<Longrightarrow>
   upsertHabitLog newDate uuid now now' p ctx s = (Inl e, s)"
  by (simp add: upsertHabitLog_def defineAction_def upsertHabitLog_handler_def)

lemma upsertHabitLog_origins:
  "map origin (EcoHabitLogs (snd (upsertHabitLog newDate uuid now now' p ctx s))) =
     map origin (EcoHabitLogs s) @ creation newDate (UpsertHabitLog uuid now now' p ctx) s"
proof (cases "upsertHabitLog_schema newDate p")
  case None
  then show ?thesis
    by (simp add: upsertHabitLog_invalid split: sum.splits)
next
  case (Some inp)
  note inp = this
  show ?thesis
  proof (cases "requireUser ctx")
    case (Inl e)
    with inp show ?thesis
      by (simp add: upsertHabitLog_signed_out)
  next
    case (Inr a)
    show ?thesis
    proof (cases "habit_owned s (user_id a) (i_habitId inp)")
      case False
      with inp Inr show ?thesis
        by (simp add: upsertHabitLog_not_owned)
    next
      case own: True
      show ?thesis
      proof (cases "habit_readable s (user_id a) (i_habitId inp)")
        case False
        with inp Inr show ?thesis
          by (simp add: upsertHabitLog_habit_unreadable)
      next
        case rd: True
        show ?thesis
        proof (cases "truthy (i_id inp)")
          case None
          with inp Inr own rd show ?thesis
            by (simp add: upsertHabitLog_create_path origin_def)
        next
          case (Some i)
          show ?thesis
          proof (cases "log_owned s (user_id a) i")
            case False
            with inp Inr own rd Some show ?thesis
              by (simp add: upsertHabitLog_log_not_owned)
          next
            case lg: True
            from upsertHabitLog_update_path [OF inp Inr own rd Some lg, of uuid now now']
            show ?thesis
              using Inr
              by (auto simp: origin_def apply_EcoHabitLog_set_def)
          qed
        qed
      qed
    qed
  qed
qed

lemma other_actions_keep_logs:
  "EcoHabitLogs (snd (createHabit uuid now p ctx s)) = EcoHabitLogs s"
  "EcoHabitLogs (snd (updateHabit now p ctx s)) = EcoHabitLogs s"
  "EcoHabitLogs (snd (archiveHabit now p ctx s)) = EcoHabitLogs s"
  "EcoHabitLogs (snd (listMyHabits p ctx s)) = EcoHabitLogs s"
  "EcoHabitLogs (snd (listHabitLogs p ctx s)) = EcoHabitLogs s"
  by (simp_all add: action_defs handler_defs select_EcoHabits_def select_EcoHabitLogs_def
      insert_EcoHabits_def update_EcoHabits_def getHabitForUser_def Let_def
      split: option.splits sum.splits list.splits prod.splits)

lemma other_actions_keep_habits:
  "EcoHabits (snd (listMyHabits p ctx s)) = EcoHabits s"
  "EcoHabits (snd (listHabitLogs p ctx s)) = EcoHabits s"
  "EcoHabits (snd (upsertHabitLog newDate uuid now now' p ctx s)) = EcoHabits s"
  by (simp_all add: action_defs handler_defs select_EcoHabits_def select_EcoHabitLogs_def
      insert_EcoHabitLogs_def update_EcoHabitLogs_def getHabitForUser_def Let_def
      split: option.splits sum.splits list.splits prod.splits)

lemma perform_origins:
  "map origin (EcoHabitLogs (perform newDate c s)) =
     map origin (EcoHabitLogs s) @ creation newDate c s"
  by (cases c) (simp_all add: other_actions_keep_logs upsertHabitLog_origins)

text \<open>
  C10. Take any sequence of calls of the six actions, from any database. Read as id,
  owner and time of creation, the logs of the table afterwards are the logs that were
  there before, in their places, followed by one log for each call of
  \<^verbatim>\<open>upsertHabitLog\<close> that answered \<^verbatim>\<open>created\<close>: it has the \<^verbatim>\<open>logId\<close> that the call
  returned, the identity of the caller of that call as \<^verbatim>\<open>userId\<close>, and the clock reading
  of that call as \<^verbatim>\<open>createdAt\<close>. So no call, and in particular no update of a log
  whatever it does to \<^verbatim>\<open>habitId\<close>, changes the \<^verbatim>\<open>userId\<close> or the \<^verbatim>\<open>createdAt\<close> of a
  stored log, and the \<^verbatim>\<open>userId\<close> of a log is the identity of the caller that created it.
\<close>

theorem log_owner_is_creator:
  "map origin (EcoHabitLogs (fst (run newDate cs s))) =
     map origin (EcoHabitLogs s) @ snd (run newDate cs s)"
proof (induction cs arbitrary: s)
  case Nil
  show ?case by simp
next
  case (Cons c cs)
  show ?case
    using Cons.IH [of "perform newDate c s"]
    by (auto simp: perform_origins split: prod.splits)
qed

lemma example_run:
  "snd (run date_values example_calls example_db) = [(''l9'', ''alice'', 301)]"
  "map l_habitId (EcoHabitLogs (fst (run date_values example_calls example_db))) =
     [''h1'', ''h2'', ''h3'']"
  by (simp_all add: example_calls_def action_defs handler_defs schema_defs db_defs example_defs
      split: prod.splits)

theorem log_owner_is_creator_witness:
  "map origin (EcoHabitLogs (fst (run date_values example_calls example_db))) =
     [(''l1'', ''bob'', 151), (''l2'', ''alice'', 161), (''l9'', ''alice'', 301)]
   \<and> map l_habitId (EcoHabitLogs (fst (run date_values example_calls example_db))) =
     [''h1'', ''h2'', ''h3'']"
proof -
  have "map origin (EcoHabitLogs example_db) = [(''l1'', ''bob'', 151), (''l2'', ''alice'', 161)]"
    by (simp add: origin_def example_defs)
  with log_owner_is_creator [of date_values example_calls example_db] example_run
  show ?thesis
    by simp
qed

subsection \<open>Archiving a habit\<close>

text \<open>
  C9: the code does not do what the claim says once the caller has a habit that cannot
  be read back. Alice archives her habit \<^verbatim>\<open>h2\<close>, which succeeds and leaves the logs as
  they were. She then creates the habit \<^verbatim>\<open>h3\<close> with the target \<^verbatim>\<open>2^53\<close>, which the
  schema accepts. \<^verbatim>\<open>listMyHabits\<close> with inactive habits selects all her habits, and the
  select throws on the row of \<^verbatim>\<open>h3\<close>: the call fails, and does not return the archived
  habit \<^verbatim>\<open>h2\<close> with \<^verbatim>\<open>isActive\<close> false.
\<close>

theorem listMyHabits_fails_after_archive:
  "fst (archiveHabit 250 (JObj [(''id'', JStr ''h2'')]) (signed_in ''alice'') example_db) =
     Inr \<lparr>habitId = ''h2''\<rparr>
   \<and> EcoHabitLogs (snd (archiveHabit 250 (JObj [(''id'', JStr ''h2'')]) (signed_in ''alice'')
        example_db)) = EcoHabitLogs example_db
   \<and> fst (createHabit ''h3'' 310 big_target (signed_in ''alice'')
        (snd (archiveHabit 250 (JObj [(''id'', JStr ''h2'')]) (signed_in ''alice'')
           example_db))) = Inr \<lparr>habitId = ''h3''\<rparr>
   \<and> listMyHabits_schema (JObj [(''includeInactive'', JBool True)]) =
       Some \<lparr>includeInactive = True\<rparr>
   \<and> fst (listMyHabits (JObj [(''includeInactive'', JBool True)]) (signed_in ''alice'')
        (snd (createHabit ''h3'' 310 big_target (signed_in ''alice'')
           (snd (archiveHabit 250 (JObj [(''id'', JStr ''h2'')]) (signed_in ''alice'')
              example_db))))) = Inl InternalServerError"
  by (simp add: action_defs handler_defs schema_defs db_defs example_defs)

subsection \<open>The key constraints are kept\<close>

text \<open>
  \<open>db_ok\<close> holds of the empty database and is kept by every call whose generated id is
  not the empty string, so it holds of every database that the actions build.
\<close>

lemma nonempty_keys: "list_all (\<lambda>r. k r \<noteq> []) xs \<longleftrightarrow> [] \<notin> set (map k xs)"
  by (induction xs) auto

lemma db_ok_keys:
  "db_ok s \<longleftrightarrow>
     distinct (map h_id (EcoHabits s)) \<and> [] \<notin> set (map h_id (EcoHabits s)) \<and>
     distinct (map l_id (EcoHabitLogs s)) \<and> [] \<notin> set (map l_id (EcoHabitLogs s))"
  unfolding db_ok_def nonempty_keys by blast

lemma map_key_update:
  assumes "\<And>r. k (f r) = k r"
  shows "map k (map (\<lambda>r. if c r then f r else r) xs) = map k xs"
  using assms by (induction xs) simp_all

lemma habit_ids_after:
  "map h_id (EcoHabits (snd (createHabit uuid now p ctx s))) = map h_id (EcoHabits s)
   \<or> uuid \<notin> set (map h_id (EcoHabits s)) \<and>
     map h_id (EcoHabits (snd (createHabit uuid now p ctx s))) = map h_id (EcoHabits s) @ [uuid]"
  "map h_id (EcoHabits (snd (updateHabit now p ctx s))) = map h_id (EcoHabits s)"
  "map h_id (EcoHabits (snd (archiveHabit now p ctx s))) = map h_id (EcoHabits s)"
  by (auto simp: action_defs handler_defs select_EcoHabits_def insert_EcoHabits_def
      update_EcoHabits_def getHabitForUser_def Let_def apply_EcoHabit_set_def
      map_key_update [unfolded comp_def] comp_def
      split: option.splits sum.splits list.splits prod.splits cong: if_cong)

lemma log_ids_after:
  "map l_id (EcoHabitLogs (snd (upsertHabitLog newDate uuid now now' p ctx s))) =
     map l_id (EcoHabitLogs s)
   \<or> uuid \<notin> set (map l_id (EcoHabitLogs s)) \<and>
     map l_id (EcoHabitLogs (snd (upsertHabitLog newDate uuid now now' p ctx s))) =
       map l_id (EcoHabitLogs s) @ [uuid]"
  by (auto simp: action_defs handler_defs select_EcoHabits_def select_EcoHabitLogs_def
      insert_EcoHabitLogs_def update_EcoHabitLogs_def getHabitForUser_def Let_def
      apply_EcoHabitLog_set_def map_key_update [unfolded comp_def] comp_def
      split: option.splits sum.splits list.splits prod.splits cong: if_cong)

lemma db_ok_step:
  assumes "db_ok s"
    and "map h_id (EcoHabits s') = map h_id (EcoHabits s)
         \<or> u \<notin> set (map h_id (EcoHabits s)) \<and> u \<noteq> [] \<and>
           map h_id (EcoHabits s') = map h_id (EcoHabits s) @ [u]"
    and "map l_id (EcoHabitLogs s') = map l_id (EcoHabitLogs s)
         \<or> v \<notin> set (map l_id (EcoHabitLogs s)) \<and> v \<noteq> [] \<and>
           map l_id (EcoHabitLogs s') = map l_id (EcoHabitLogs s) @ [v]"
  shows "db_ok s'"
  using assms unfolding db_ok_keys
  by (auto simp del: set_map)

lemma db_ok_perform:
  assumes "db_ok s" and "uuid_nonempty c"
  shows "db_ok (perform newDate c s)"
proof (cases c)
  case (CreateHabit uuid now p ctx)
  with assms(2) have "uuid \<noteq> []" by simp
  with habit_ids_after(1) [of uuid now p ctx s] show ?thesis
    unfolding CreateHabit perform.simps
    by (intro db_ok_step [OF assms(1), of _ uuid]) (simp_all add: other_actions_keep_logs)
next
  case (UpdateHabit now p ctx)
  show ?thesis
    unfolding UpdateHabit perform.simps
    by (rule db_ok_step [OF assms(1)]) (simp_all add: other_actions_keep_logs habit_ids_after)
next
  case (ArchiveHabit now p ctx)
  show ?thesis
    unfolding ArchiveHabit perform.simps
    by (rule db_ok_step [OF assms(1)]) (simp_all add: other_actions_keep_logs habit_ids_after)
next
  case (ListMyHabits p ctx)
  show ?thesis
    unfolding ListMyHabits perform.simps
    by (rule db_ok_step [OF assms(1)])
      (simp_all add: other_actions_keep_logs other_actions_keep_habits)
next
  case (UpsertHabitLog uuid now now' p ctx)
  with assms(2) have "uuid \<noteq> []" by simp
  with log_ids_after [of newDate uuid now now' p ctx s] show ?thesis
    unfolding UpsertHabitLog perform.simps
    by (intro db_ok_step [OF assms(1), of _ _ uuid]) (simp_all add: other_actions_keep_habits)
next
  case (ListHabitLogs p ctx)
  show ?thesis
    unfolding ListHabitLogs perform.simps
    by (rule db_ok_step [OF assms(1)])
      (simp_all add: other_actions_keep_logs other_actions_keep_habits)
qed

lemma fst_run_Cons: "fst (run newDate (c # cs) s) = fst (run newDate cs (perform newDate c s))"
  by (simp split: prod.splits)

lemma db_ok_run:
  assumes "db_ok s" and "list_all uuid_nonempty cs"
  shows "db_ok (fst (run newDate cs s))"
  using assms
proof (induction cs arbitrary: s)
  case Nil
  then show ?case by simp
next
  case (Cons c cs)
  from Cons.prems have "db_ok (perform newDate c s)" and "list_all uuid_nonempty cs"
    by (simp_all add: db_ok_perform)
  then have "db_ok (fst (run newDate cs (perform newDate c s)))"
    by (rule Cons.IH)
  then show ?case
    by (simp only: fst_run_Cons)
qed

lemma db_ok_empty: "db_ok \<lparr>EcoHabits = [], EcoHabitLogs = [], journal = []\<rparr>"
  by (simp add: db_ok_def)

end
